theory Spec2Isabelle
  imports Complex_Main "HOL-Library.AList" "HOL-Library.Sublist"
begin

section \<open>The dataframe library, as far as the datamart uses it\<close>

text \<open>
  \<open>new_ADMDatamart.py\<close> is glue code over a lazy dataframe library: it composes
  expressions and plan nodes and never touches a cell itself. The part of the library it
  calls is modelled here. A Float64 cell is NaN, an infinity or a finite number; finite
  arithmetic is exact (rounding to 53 bits and the sign of zero are not modelled), and a
  column of integer counts is read as the Float64 values true division casts it to.
\<close>

datatype f64 = NaN | PosInf | NegInf | Fin real

datatype val = VNull | VNum f64 | VStr string | VTime int | VBool bool

datatype dtype = Float64 | Utf8 | Datetime | Boolean | NullType

datatype error =
    ColumnNotFoundError string
  | KeyError string
  | DuplicateError
  | InvalidOperationError
  | StorageError string
  | HelperError string

type_synonym row = "(string \<times> val) list"

type_synonym schema = "(string \<times> dtype) list"

record dataframe =
  schema :: schema
  rows :: "row list"

datatype expr =
    Col string
  | Lit val
  | Div expr expr
  | Add expr expr
  | FillNan expr expr
  | Gt expr expr
  | Ext "string list" dtype "row \<Rightarrow> val"

datatype lazyframe =
    Scan dataframe
  | Rename "string \<Rightarrow> string" lazyframe
  | WithColumns lazyframe "(string \<times> expr) list"
  | FilterRows lazyframe expr

subsection \<open>Float64 arithmetic\<close>

text \<open>
  The special values follow IEEE 754: a finite non-zero number divided by zero is an
  infinity, 0/0 and infinity/infinity are NaN, NaN propagates. On finite numbers the
  operations below return the exact real result, where Float64 returns that result
  rounded to 53 significant bits (or an infinity on overflow). The statements about the
  range of a result are therefore made only for inputs on which the rounded result has
  the stated property as well: a quotient of \<open>0 \<le> p \<le> n\<close> stays in [0,1] when it is
  rounded, and the adjusted propensity is bounded for counts below \<open>2^52\<close> only.
\<close>

fun f64_div :: "f64 \<Rightarrow> f64 \<Rightarrow> f64" where
  "f64_div NaN y = NaN"
| "f64_div x NaN = NaN"
| "f64_div (Fin x) (Fin y) =
     (if y = 0 then (if x = 0 then NaN else if 0 < x then PosInf else NegInf)
      else Fin (x / y))"
| "f64_div (Fin x) PosInf = Fin 0"
| "f64_div (Fin x) NegInf = Fin 0"
| "f64_div PosInf (Fin y) = (if 0 \<le> y then PosInf else NegInf)"
| "f64_div NegInf (Fin y) = (if 0 \<le> y then NegInf else PosInf)"
| "f64_div PosInf PosInf = NaN"
| "f64_div PosInf NegInf = NaN"
| "f64_div NegInf PosInf = NaN"
| "f64_div NegInf NegInf = NaN"

fun f64_add :: "f64 \<Rightarrow> f64 \<Rightarrow> f64" where
  "f64_add NaN y = NaN"
| "f64_add x NaN = NaN"
| "f64_add (Fin x) (Fin y) = Fin (x + y)"
| "f64_add PosInf NegInf = NaN"
| "f64_add NegInf PosInf = NaN"
| "f64_add PosInf y = PosInf"
| "f64_add NegInf y = NegInf"
| "f64_add (Fin x) PosInf = PosInf"
| "f64_add (Fin x) NegInf = NegInf"

text \<open>Comparison is the library's total order on floats: NaN is above every other value.\<close>

fun f64_gt :: "f64 \<Rightarrow> f64 \<Rightarrow> bool" where
  "f64_gt x NaN = False"
| "f64_gt NaN y = True"
| "f64_gt x PosInf = False"
| "f64_gt PosInf y = True"
| "f64_gt NegInf y = False"
| "f64_gt (Fin x) NegInf = True"
| "f64_gt (Fin x) (Fin y) = (y < x)"

subsection \<open>Cells: null propagates through arithmetic, \<open>fill_nan\<close> replaces NaN only\<close>

fun val_div :: "val \<Rightarrow> val \<Rightarrow> val" where
  "val_div (VNum a) (VNum b) = VNum (f64_div a b)"
| "val_div a b = VNull"

fun val_add :: "val \<Rightarrow> val \<Rightarrow> val" where
  "val_add (VNum a) (VNum b) = VNum (f64_add a b)"
| "val_add a b = VNull"

fun val_gt :: "val \<Rightarrow> val \<Rightarrow> val" where
  "val_gt (VNum a) (VNum b) = VBool (f64_gt a b)"
| "val_gt a b = VNull"

fun val_fill_nan :: "val \<Rightarrow> val \<Rightarrow> val" where
  "val_fill_nan (VNum NaN) w = w"
| "val_fill_nan v w = v"

fun val_dtype :: "val \<Rightarrow> dtype" where
  "val_dtype VNull = NullType"
| "val_dtype (VNum x) = Float64"
| "val_dtype (VStr s) = Utf8"
| "val_dtype (VTime t) = Datetime"
| "val_dtype (VBool b) = Boolean"

subsection \<open>Expressions: their dtype against a schema, their value on a row\<close>

definition numeric :: "dtype \<Rightarrow> bool" where
  "numeric t = (t = Float64 \<or> t = NullType)"

fun cell :: "row \<Rightarrow> string \<Rightarrow> val" where
  "cell r n = (case map_of r n of None \<Rightarrow> VNull | Some v \<Rightarrow> v)"

fun arith_dtype :: "dtype \<Rightarrow> error + dtype \<Rightarrow> error + dtype \<Rightarrow> error + dtype" where
  "arith_dtype res (Inl e) tb = Inl e"
| "arith_dtype res (Inr ta) (Inl e) = Inl e"
| "arith_dtype res (Inr ta) (Inr tb) =
     (if numeric ta \<and> numeric tb then Inr res else Inl InvalidOperationError)"

fun dtype_of :: "schema \<Rightarrow> expr \<Rightarrow> error + dtype" where
  "dtype_of s (Col n) =
     (case map_of s n of None \<Rightarrow> Inl (ColumnNotFoundError n) | Some t \<Rightarrow> Inr t)"
| "dtype_of s (Lit v) = Inr (val_dtype v)"
| "dtype_of s (Div a b) = arith_dtype Float64 (dtype_of s a) (dtype_of s b)"
| "dtype_of s (Add a b) = arith_dtype Float64 (dtype_of s a) (dtype_of s b)"
| "dtype_of s (FillNan a b) = arith_dtype Float64 (dtype_of s a) (dtype_of s b)"
| "dtype_of s (Gt a b) = arith_dtype Boolean (dtype_of s a) (dtype_of s b)"
| "dtype_of s (Ext cs t f) =
     (case find (\<lambda>c. map_of s c = None) cs of
        Some c \<Rightarrow> Inl (ColumnNotFoundError c)
      | None \<Rightarrow> Inr t)"

fun eval :: "expr \<Rightarrow> row \<Rightarrow> val" where
  "eval (Col n) r = cell r n"
| "eval (Lit v) r = v"
| "eval (Div a b) r = val_div (eval a r) (eval b r)"
| "eval (Add a b) r = val_add (eval a r) (eval b r)"
| "eval (FillNan a b) r = val_fill_nan (eval a r) (eval b r)"
| "eval (Gt a b) r = val_gt (eval a r) (eval b r)"
| "eval (Ext cs t f) r = f r"

subsection \<open>Plans: schema resolution and materialization\<close>

text \<open>
  \<open>with_columns\<close> evaluates all its expressions on the incoming row and then writes them:
  an existing column keeps its position and gets the new content, a new one is appended.
  A column an expression names must be in the schema, whatever the rows are: that check
  is \<open>dtype_of\<close>, and it is the reason a plan can be built and still fail to run.
\<close>

fun dtypes_of :: "schema \<Rightarrow> (string \<times> expr) list \<Rightarrow> error + (string \<times> dtype) list" where
  "dtypes_of s [] = Inr []"
| "dtypes_of s ((n, e) # es) =
     (case dtype_of s e of
        Inl err \<Rightarrow> Inl err
      | Inr t \<Rightarrow> (case dtypes_of s es of Inl err \<Rightarrow> Inl err | Inr ts \<Rightarrow> Inr ((n, t) # ts)))"

definition with_columns_schema :: "(string \<times> dtype) list \<Rightarrow> schema \<Rightarrow> schema" where
  "with_columns_schema ts s = fold (\<lambda>(n, t) acc. AList.update n t acc) ts s"

definition with_columns_row :: "(string \<times> expr) list \<Rightarrow> row \<Rightarrow> row" where
  "with_columns_row es r = fold (\<lambda>(n, e) acc. AList.update n (eval e r) acc) es r"

definition rename_schema :: "(string \<Rightarrow> string) \<Rightarrow> schema \<Rightarrow> schema" where
  "rename_schema f s = map (\<lambda>(n, t). (f n, t)) s"

definition rename_row :: "(string \<Rightarrow> string) \<Rightarrow> row \<Rightarrow> row" where
  "rename_row f r = map (\<lambda>(n, v). (f n, v)) r"

fun collect_schema :: "lazyframe \<Rightarrow> error + schema" where
  "collect_schema (Scan t) = Inr (schema t)"
| "collect_schema (Rename f lf) =
     (case collect_schema lf of
        Inl e \<Rightarrow> Inl e
      | Inr s \<Rightarrow>
          if distinct (map fst (rename_schema f s)) then Inr (rename_schema f s)
          else Inl DuplicateError)"
| "collect_schema (WithColumns lf es) =
     (case collect_schema lf of
        Inl e \<Rightarrow> Inl e
      | Inr s \<Rightarrow>
          (case dtypes_of s es of
             Inl e \<Rightarrow> Inl e
           | Inr ts \<Rightarrow> Inr (with_columns_schema ts s)))"
| "collect_schema (FilterRows lf p) =
     (case collect_schema lf of
        Inl e \<Rightarrow> Inl e
      | Inr s \<Rightarrow>
          (case dtype_of s p of
             Inl e \<Rightarrow> Inl e
           | Inr t \<Rightarrow> if t = Boolean then Inr s else Inl InvalidOperationError))"

text \<open>A filter keeps the rows on which the predicate is true; a null predicate drops the row.\<close>

fun collect_rows :: "lazyframe \<Rightarrow> row list" where
  "collect_rows (Scan t) = rows t"
| "collect_rows (Rename f lf) = map (rename_row f) (collect_rows lf)"
| "collect_rows (WithColumns lf es) = map (with_columns_row es) (collect_rows lf)"
| "collect_rows (FilterRows lf p) = filter (\<lambda>r. eval p r = VBool True) (collect_rows lf)"

definition collect :: "lazyframe \<Rightarrow> error + dataframe" where
  "collect lf =
     (case collect_schema lf of
        Inl e \<Rightarrow> Inl e
      | Inr s \<Rightarrow> Inr \<lparr>schema = s, rows = collect_rows lf\<rparr>)"

definition names :: "schema \<Rightarrow> string list" where
  "names s = map fst s"

section \<open>The helpers of the package that are not part of the sources at hand\<close>

text \<open>
  \<open>cdh_utils\<close>, \<open>pega_io\<close> and \<open>Aggregates\<close> are imported by the datamart and are
  not among the sources. What the datamart needs of them is a parameter:
  the naming scheme of \<open>_polars_capitalize\<close>, \<open>_extract_keys\<close> (any function from
  plans to plans, which may raise), the expression \<open>parse_pega_date_time_formats()\<close>
  returns, the default categorization rule (a callable: it runs on a state \<open>'s\<close> and
  returns the expression), and the join of \<open>_combine_data\<close>.
\<close>

record 's helpers =
  capitalize :: "string \<Rightarrow> string"
  extract_keys :: "lazyframe \<Rightarrow> error + lazyframe"
  parse_pega_date_time_formats :: expr
  default_predictor_categorization :: "'s \<Rightarrow> expr \<times> 's"
  join_on_model_id :: "lazyframe \<Rightarrow> lazyframe \<Rightarrow> lazyframe"

text \<open>
  Modelled from the spec: \<open>cdh_utils._polars_capitalize\<close> is missing from the sources.
  The spec (4.1): a dataset whose column names match the canonical capitalization, same
  row count and column content, no side effect beyond renaming.
\<close>

definition polars_capitalize :: "'s helpers \<Rightarrow> lazyframe \<Rightarrow> lazyframe" where
  "polars_capitalize h df = Rename (capitalize h) df"

text \<open>
  Modelled from the spec: \<open>cdh_utils._apply_query\<close> is missing from the sources.
  The spec (4.7): given zero or more filter predicates, restrict the dataset to the
  matching rows; no predicates is the identity.
\<close>

definition apply_query :: "lazyframe \<Rightarrow> expr list option \<Rightarrow> lazyframe" where
  "apply_query df query =
     (case query of
        None \<Rightarrow> df
      | Some ps \<Rightarrow> fold (\<lambda>p acc. FilterRows acc p) ps df)"

text \<open>
  Modelled from the spec: \<open>Aggregates._combine_data\<close> is missing from the sources.
  The spec (4.6): if either source is absent, the combined view is absent; otherwise the
  predictor rows joined to the model rows on the model identifier.
\<close>

definition combine_data ::
  "'s helpers \<Rightarrow> lazyframe option \<Rightarrow> lazyframe option \<Rightarrow> lazyframe option" where
  "combine_data h model_df predictor_df =
     (case model_df of
        None \<Rightarrow> None
      | Some m \<Rightarrow>
          (case predictor_df of
             None \<Rightarrow> None
           | Some p \<Rightarrow> Some (join_on_model_id h p m)))"

section \<open>ADMDatamart\<close>

record datamart =
  context_keys :: "string list"
  model_data :: "lazyframe option"
  predictor_data :: "lazyframe option"
  combined_data :: "lazyframe option"

definition initial_context_keys :: "string list" where
  "initial_context_keys = [''Channel'', ''Direction'', ''Issue'', ''Group'', ''Name'']"

definition success_rate_expr :: expr where
  "success_rate_expr =
     FillNan (Div (Col ''Positives'') (Col ''ResponseCount'')) (Lit (VNum (Fin 0)))"

text \<open>
  \<open>_validate_model_data\<close> (lines 80 to 108). It mutates \<open>self.context_keys\<close>: the
  list comes in as \<open>keys\<close> and goes out with the result. \<open>schema["SnapshotTime"]\<close>
  is a lookup in the resolved schema and raises KeyError there and then.
\<close>

definition validate_model_data ::
  "'s helpers \<Rightarrow> string list \<Rightarrow> lazyframe option \<Rightarrow> expr list option \<Rightarrow> bool
     \<Rightarrow> error + (lazyframe option \<times> string list)" where
  "validate_model_data h keys df query extract_pyname_keys =
     (case df of
        None \<Rightarrow> Inr (None, keys)
      | Some df0 \<Rightarrow>
          (let df1 = polars_capitalize h df0 in
           case collect_schema df1 of
             Inl e \<Rightarrow> Inl e
           | Inr sch \<Rightarrow>
               (case (if extract_pyname_keys \<and> ''Name'' \<in> set (names sch)
                      then extract_keys h df1 else Inr df1) of
                  Inl e \<Rightarrow> Inl e
                | Inr df2 \<Rightarrow>
                    (let keys1 = (if ''Treatment'' \<in> set (names sch)
                                  then keys @ [''Treatment''] else keys);
                         keys2 = filter (\<lambda>k. k \<in> set (names sch)) keys1;
                         df3 = WithColumns df2 [(''SuccessRate'', success_rate_expr)]
                     in case map_of sch ''SnapshotTime'' of
                          None \<Rightarrow> Inl (KeyError ''SnapshotTime'')
                        | Some t \<Rightarrow>
                            (let df4 = (if t \<noteq> Datetime
                                        then WithColumns df3
                                          [(''SnapshotTime'', parse_pega_date_time_formats h)]
                                        else df3)
                             in Inr (Some (apply_query df4 query), keys2))))))"

text \<open>
  \<open>apply_predictor_categorization\<close> (lines 136 to 146). The rule is an expression, a
  callable or None; a callable is called, and what it returns is written to
  \<open>PredictorCategory\<close>. None is written as the null literal.
\<close>

datatype 's categorization =
    CatExpr expr
  | CatCallable "'s \<Rightarrow> expr \<times> 's"
  | CatNone

fun resolve_categorization :: "'s categorization \<Rightarrow> 's \<Rightarrow> expr \<times> 's" where
  "resolve_categorization (CatCallable f) s = f s"
| "resolve_categorization (CatExpr e) s = (e, s)"
| "resolve_categorization CatNone s = (Lit VNull, s)"

definition apply_predictor_categorization ::
  "lazyframe \<Rightarrow> 's categorization \<Rightarrow> 's \<Rightarrow> lazyframe \<times> 's" where
  "apply_predictor_categorization df categorization s =
     (case resolve_categorization categorization s of
        (e, s') \<Rightarrow> (WithColumns df [(''PredictorCategory'', e)], s'))"

definition bin_propensity_expr :: expr where
  "bin_propensity_expr = Div (Col ''BinPositives'') (Col ''BinResponseCount'')"

definition bin_adjusted_propensity_expr :: expr where
  "bin_adjusted_propensity_expr =
     Div (Add (Col ''BinPositives'') (Lit (VNum (Fin 0.5))))
         (Add (Col ''BinResponseCount'') (Lit (VNum (Fin 1))))"

text \<open>\<open>_validate_predictor_data\<close> (lines 110 to 134).\<close>

definition validate_predictor_data ::
  "'s helpers \<Rightarrow> lazyframe option \<Rightarrow> 's \<Rightarrow> error + (lazyframe option \<times> 's)" where
  "validate_predictor_data h df s =
     (case df of
        None \<Rightarrow> Inr (None, s)
      | Some df0 \<Rightarrow>
          (let df1 = polars_capitalize h df0 in
           case collect_schema df1 of
             Inl e \<Rightarrow> Inl e
           | Inr sch \<Rightarrow>
               (let df2 = (if ''BinResponseCount'' \<notin> set (names sch)
                           then WithColumns df1
                             [(''BinResponseCount'',
                               Add (Col ''BinPositives'') (Col ''BinNegatives''))]
                           else df1);
                    df3 = WithColumns df2
                            [(''BinPropensity'', bin_propensity_expr),
                             (''BinAdjustedPropensity'', bin_adjusted_propensity_expr)]
                in if ''PredictorCategory'' \<notin> set (names sch)
                   then (case apply_predictor_categorization df3
                               (CatCallable (default_predictor_categorization h)) s of
                           (df4, s') \<Rightarrow> Inr (Some df4, s'))
                   else Inr (Some df3, s))))"

text \<open>\<open>__init__\<close> (lines 30 to 59).\<close>

definition init ::
  "'s helpers \<Rightarrow> lazyframe option \<Rightarrow> lazyframe option \<Rightarrow> expr list option \<Rightarrow> bool \<Rightarrow> 's
     \<Rightarrow> error + (datamart \<times> 's)" where
  "init h model_df predictor_df query extract_pyname_keys s =
     (case validate_model_data h initial_context_keys model_df query extract_pyname_keys of
        Inl e \<Rightarrow> Inl e
      | Inr (md, keys) \<Rightarrow>
          (case validate_predictor_data h predictor_df s of
             Inl e \<Rightarrow> Inl e
           | Inr (pd, s') \<Rightarrow>
               Inr (\<lparr>context_keys = keys, model_data = md, predictor_data = pd,
                      combined_data = combine_data h md pd\<rparr>, s')))"

section \<open>save_data\<close>

text \<open>
  \<open>datetime.datetime.now().strftime("%Y%m%dT%H%M%S.%f")[:-3]\<close>: every field is a
  decimal number padded with zeros to its width (4, 2, 2, 2, 2, 2 and 6), and the slice
  drops the last three characters.
\<close>

record datetime =
  year :: nat
  month :: nat
  day :: nat
  hour :: nat
  minute :: nat
  second :: nat
  microsecond :: nat

definition digit :: "nat \<Rightarrow> char" where
  "digit d = ''0123456789'' ! d"

fun decimal :: "nat \<Rightarrow> string" where
  "decimal n = (if n < 10 then [digit n] else decimal (n div 10) @ [digit (n mod 10)])"

definition zpad :: "nat \<Rightarrow> string \<Rightarrow> string" where
  "zpad w s = replicate (w - length s) (CHR ''0'') @ s"

definition strftime :: "datetime \<Rightarrow> string" where
  "strftime t =
     zpad 4 (decimal (year t)) @ zpad 2 (decimal (month t)) @ zpad 2 (decimal (day t))
     @ ''T'' @ zpad 2 (decimal (hour t)) @ zpad 2 (decimal (minute t))
     @ zpad 2 (decimal (second t)) @ ''.'' @ zpad 6 (decimal (microsecond t))"

definition drop_last3 :: "string \<Rightarrow> string" where
  "drop_last3 s = take (length s - 3) s"

text \<open>
  The clock and \<open>pega_io.cache_to_file\<close> (not among the sources) act on the world
  \<open>'w\<close>: reading the clock returns the time and the world after the reading, a write
  returns the location of the artifact and the world after it, or raises.
\<close>

record 'w io =
  now :: "'w \<Rightarrow> datetime \<times> 'w"
  cache_to_file :: "lazyframe \<Rightarrow> string \<Rightarrow> string \<Rightarrow> 'w \<Rightarrow> error + (string \<times> 'w)"

text \<open>\<open>save_data\<close> (lines 148 to 174).\<close>

definition save_data ::
  "'w io \<Rightarrow> datamart \<Rightarrow> string \<Rightarrow> 'w \<Rightarrow> error + ((string option \<times> string option) \<times> 'w)" where
  "save_data io dm path w =
     (case now io w of
        (t, w0) \<Rightarrow>
          (let time = drop_last3 (strftime t) in
           case (case model_data dm of
                   None \<Rightarrow> Inr (None, w0)
                 | Some md \<Rightarrow>
                     (case cache_to_file io md path (''cached_model_data_'' @ time) w0 of
                        Inl e \<Rightarrow> Inl e
                      | Inr (p, w1) \<Rightarrow> Inr (Some p, w1))) of
             Inl e \<Rightarrow> Inl e
           | Inr (modeldata_cache, w1) \<Rightarrow>
               (case (case predictor_data dm of
                        None \<Rightarrow> Inr (None, w1)
                      | Some pd \<Rightarrow>
                          (case cache_to_file io pd path (''cached_predictor_data_'' @ time) w1 of
                             Inl e \<Rightarrow> Inl e
                           | Inr (p, w2) \<Rightarrow> Inr (Some p, w2))) of
                  Inl e \<Rightarrow> Inl e
                | Inr (predictordata_cache, w2) \<Rightarrow>
                    Inr ((modeldata_cache, predictordata_cache), w2))))"

section \<open>What the claims speak of\<close>

text \<open>The rows of the validated model dataset, once it is materialized.\<close>

definition validated_model_rows ::
  "'s helpers \<Rightarrow> lazyframe \<Rightarrow> expr list option \<Rightarrow> bool \<Rightarrow> error + row list" where
  "validated_model_rows h df query extract_pyname_keys =
     (case validate_model_data h initial_context_keys (Some df) query extract_pyname_keys of
        Inl e \<Rightarrow> Inl e
      | Inr (md, keys) \<Rightarrow>
          (case md of
             None \<Rightarrow> Inr []
           | Some lf \<Rightarrow> (case collect lf of Inl e \<Rightarrow> Inl e | Inr t \<Rightarrow> Inr (rows t))))"

text \<open>The rows of the validated predictor dataset, once it is materialized.\<close>

definition validated_predictor_rows :: "'s helpers \<Rightarrow> lazyframe \<Rightarrow> 's \<Rightarrow> error + row list" where
  "validated_predictor_rows h df s =
     (case validate_predictor_data h (Some df) s of
        Inl e \<Rightarrow> Inl e
      | Inr (pd, s') \<Rightarrow>
          (case pd of
             None \<Rightarrow> Inr []
           | Some lf \<Rightarrow> (case collect lf of Inl e \<Rightarrow> Inl e | Inr t \<Rightarrow> Inr (rows t))))"

definition success_rate_ok :: "row \<Rightarrow> bool" where
  "success_rate_ok r =
     (map_of r ''SuccessRate'' =
        Some (val_fill_nan (val_div (cell r ''Positives'') (cell r ''ResponseCount''))
                (VNum (Fin 0))))"

definition in_unit_interval :: "val \<Rightarrow> bool" where
  "in_unit_interval v = (case v of VNum (Fin x) \<Rightarrow> 0 \<le> x \<and> x \<le> 1 | _ \<Rightarrow> False)"

definition strictly_inside_unit_interval :: "val \<Rightarrow> bool" where
  "strictly_inside_unit_interval v = (case v of VNum (Fin x) \<Rightarrow> 0 < x \<and> x < 1 | _ \<Rightarrow> False)"

definition context_key_candidates :: "string list" where
  "context_key_candidates =
     [''Channel'', ''Direction'', ''Issue'', ''Group'', ''Name'', ''Treatment'']"

definition adjusted_propensity_ok :: "row \<Rightarrow> bool" where
  "adjusted_propensity_ok r =
     (map_of r ''BinAdjustedPropensity'' =
        Some (val_div (val_add (cell r ''BinPositives'') (VNum (Fin 0.5)))
                      (val_add (cell r ''BinResponseCount'') (VNum (Fin 1)))))"

definition response_count_ok :: "row \<Rightarrow> bool" where
  "response_count_ok r =
     (map_of r ''BinResponseCount'' =
        Some (val_add (cell r ''BinPositives'') (cell r ''BinNegatives'')))"

text \<open>The state the categorization rule is left in by a predictor validation.\<close>

definition predictor_validation_state :: "'s helpers \<Rightarrow> lazyframe \<Rightarrow> 's \<Rightarrow> error + 's" where
  "predictor_validation_state h df s =
     (case validate_predictor_data h (Some df) s of
        Inl e \<Rightarrow> Inl e
      | Inr (pd, s') \<Rightarrow> Inr s')"

text \<open>Two direct calls of \<open>apply_predictor_categorization\<close>, one on the result of the other.\<close>

definition categorize_twice ::
  "lazyframe \<Rightarrow> 's categorization \<Rightarrow> 's \<Rightarrow> lazyframe \<times> 's" where
  "categorize_twice df categorization s =
     (case apply_predictor_categorization df categorization s of
        (df1, s1) \<Rightarrow> apply_predictor_categorization df1 categorization s1)"

subsection \<open>Inputs the statements are run on\<close>

definition example_helpers :: "nat helpers" where
  "example_helpers =
     \<lparr>capitalize = (\<lambda>n. n),
      extract_keys = (\<lambda>df. Inr df),
      parse_pega_date_time_formats = Ext [''SnapshotTime''] Datetime (\<lambda>r. VTime 0),
      default_predictor_categorization = (\<lambda>s. (Lit (VStr ''Primary''), Suc s)),
      join_on_model_id = (\<lambda>p m. p)\<rparr>"

definition model_frame :: "val \<Rightarrow> val \<Rightarrow> lazyframe" where
  "model_frame p n =
     Scan \<lparr>schema = [(''Positives'', Float64), (''ResponseCount'', Float64),
                     (''SnapshotTime'', Datetime)],
           rows = [[(''Positives'', p), (''ResponseCount'', n), (''SnapshotTime'', VTime 0)]]\<rparr>"

definition keyed_model_frame :: lazyframe where
  "keyed_model_frame =
     Scan \<lparr>schema = [(''Channel'', Utf8), (''Name'', Utf8), (''Treatment'', Utf8),
                     (''Positives'', Float64), (''ResponseCount'', Float64),
                     (''SnapshotTime'', Datetime)],
           rows = [[(''Channel'', VStr ''Web''), (''Name'', VStr ''Offer''),
                    (''Treatment'', VStr ''Banner''), (''Positives'', VNum (Fin 5)),
                    (''ResponseCount'', VNum (Fin 20)), (''SnapshotTime'', VTime 0)]]\<rparr>"

definition untreated_model_frame :: lazyframe where
  "untreated_model_frame =
     Scan \<lparr>schema = [(''Channel'', Utf8), (''Name'', Utf8),
                     (''Positives'', Float64), (''ResponseCount'', Float64),
                     (''SnapshotTime'', Datetime)],
           rows = [[(''Channel'', VStr ''Web''), (''Name'', VStr ''Offer''),
                    (''Positives'', VNum (Fin 5)), (''ResponseCount'', VNum (Fin 20)),
                    (''SnapshotTime'', VTime 0)]]\<rparr>"

text \<open>A key extraction that reads a Treatment out of the name and adds it as a column.\<close>

definition extracting_helpers :: "nat helpers" where
  "extracting_helpers =
     example_helpers
       \<lparr>extract_keys := (\<lambda>df. Inr (WithColumns df [(''Treatment'', Lit (VStr ''Banner''))]))\<rparr>"

text \<open>What a caller sees of a constructed datamart: its context keys, and which of its
  three datasets are present.\<close>

definition constructed_context_keys ::
  "'s helpers \<Rightarrow> lazyframe option \<Rightarrow> lazyframe option \<Rightarrow> expr list option \<Rightarrow> bool \<Rightarrow> 's
     \<Rightarrow> error + string list" where
  "constructed_context_keys h model_df predictor_df query extract_pyname_keys s =
     (case init h model_df predictor_df query extract_pyname_keys s of
        Inl e \<Rightarrow> Inl e
      | Inr (dm, s') \<Rightarrow> Inr (context_keys dm))"

definition constructed_presence ::
  "'s helpers \<Rightarrow> lazyframe option \<Rightarrow> lazyframe option \<Rightarrow> expr list option \<Rightarrow> bool \<Rightarrow> 's
     \<Rightarrow> error + (bool \<times> bool \<times> bool)" where
  "constructed_presence h model_df predictor_df query extract_pyname_keys s =
     (case init h model_df predictor_df query extract_pyname_keys s of
        Inl e \<Rightarrow> Inl e
      | Inr (dm, s') \<Rightarrow>
          Inr (model_data dm \<noteq> None, predictor_data dm \<noteq> None, combined_data dm \<noteq> None))"

definition predictor_frame :: "val \<Rightarrow> val \<Rightarrow> lazyframe" where
  "predictor_frame p n =
     Scan \<lparr>schema = [(''BinPositives'', Float64), (''BinNegatives'', Float64)],
           rows = [[(''BinPositives'', p), (''BinNegatives'', n)]]\<rparr>"

definition counted_predictor_frame :: "val \<Rightarrow> val \<Rightarrow> val \<Rightarrow> lazyframe" where
  "counted_predictor_frame p n c =
     Scan \<lparr>schema = [(''BinPositives'', Float64), (''BinNegatives'', Float64),
                     (''BinResponseCount'', Float64)],
           rows = [[(''BinPositives'', p), (''BinNegatives'', n),
                    (''BinResponseCount'', c)]]\<rparr>"

definition categorized_predictor_frame :: lazyframe where
  "categorized_predictor_frame =
     Scan \<lparr>schema = [(''BinPositives'', Float64), (''BinNegatives'', Float64),
                     (''PredictorCategory'', Utf8)],
           rows = [[(''BinPositives'', VNum (Fin 3)), (''BinNegatives'', VNum (Fin 7)),
                    (''PredictorCategory'', VStr ''Custom'')]]\<rparr>"

text \<open>A categorization rule whose expression changes from one call to the next.\<close>

definition counting_rule :: "nat \<Rightarrow> expr \<times> nat" where
  "counting_rule k = (Lit (VNum (Fin (real k))), Suc k)"

definition model_frame_without_snapshot_time :: lazyframe where
  "model_frame_without_snapshot_time =
     Scan \<lparr>schema = [(''Positives'', Float64), (''ResponseCount'', Float64)],
           rows = [[(''Positives'', VNum (Fin 5)), (''ResponseCount'', VNum (Fin 20))]]\<rparr>"

definition model_frame_without_positives :: lazyframe where
  "model_frame_without_positives =
     Scan \<lparr>schema = [(''ResponseCount'', Float64), (''SnapshotTime'', Datetime)],
           rows = [[(''ResponseCount'', VNum (Fin 20)), (''SnapshotTime'', VTime 0)]]\<rparr>"

definition two_models_frame :: lazyframe where
  "two_models_frame =
     Scan \<lparr>schema = [(''Positives'', Float64), (''ResponseCount'', Float64),
                     (''SnapshotTime'', Datetime)],
           rows = [[(''Positives'', VNum (Fin 30)), (''ResponseCount'', VNum (Fin 150)),
                    (''SnapshotTime'', VTime 0)],
                   [(''Positives'', VNum (Fin 10)), (''ResponseCount'', VNum (Fin 100)),
                    (''SnapshotTime'', VTime 0)]]\<rparr>"

text \<open>The query \<open>ResponseCount > 100\<close>.\<close>

definition response_count_above_100 :: expr where
  "response_count_above_100 = Gt (Col ''ResponseCount'') (Lit (VNum (Fin 100)))"

text \<open>The rows of the predictor dataset of a constructed datamart, materialized.\<close>

definition constructed_predictor_rows ::
  "'s helpers \<Rightarrow> lazyframe option \<Rightarrow> lazyframe option \<Rightarrow> expr list option \<Rightarrow> bool \<Rightarrow> 's
     \<Rightarrow> error + row list" where
  "constructed_predictor_rows h model_df predictor_df query extract_pyname_keys s =
     (case init h model_df predictor_df query extract_pyname_keys s of
        Inl e \<Rightarrow> Inl e
      | Inr (dm, s') \<Rightarrow>
          (case predictor_data dm of
             None \<Rightarrow> Inr []
           | Some lf \<Rightarrow> (case collect lf of Inl e \<Rightarrow> Inl e | Inr t \<Rightarrow> Inr (rows t))))"

text \<open>The number \<open>n\<close> written with exactly \<open>w\<close> decimal digits: a field of a timestamp.\<close>

fun fixed_width :: "nat \<Rightarrow> nat \<Rightarrow> string" where
  "fixed_width 0 n = []"
| "fixed_width (Suc w) n = fixed_width w (n div 10) @ [digit (n mod 10)]"

text \<open>The format \<open>YYYYMMDDThhmmss.mmm\<close>, the last field being the milliseconds.\<close>

definition timestamp_format :: "datetime \<Rightarrow> string" where
  "timestamp_format t =
     fixed_width 4 (year t) @ fixed_width 2 (month t) @ fixed_width 2 (day t) @ ''T''
     @ fixed_width 2 (hour t) @ fixed_width 2 (minute t) @ fixed_width 2 (second t) @ ''.''
     @ fixed_width 3 (microsecond t div 1000)"

text \<open>A datetime whose fields are in their ranges, with a year of four digits.\<close>

definition datetime_in_range :: "datetime \<Rightarrow> bool" where
  "datetime_in_range t =
     (1000 \<le> year t \<and> year t < 10000 \<and> month t < 100 \<and> day t < 100 \<and> hour t < 100
      \<and> minute t < 100 \<and> second t < 100 \<and> microsecond t < 1000000)"

text \<open>
  A world for running \<open>save_data\<close>: the number of clock readings so far and the names
  written so far. The clock moves on by a second with every reading, and a write returns
  the path of the artifact.
\<close>

definition example_io :: "(nat \<times> string list) io" where
  "example_io =
     \<lparr>now = (\<lambda>(k, written).
               (\<lparr>year = 2024, month = 3, day = 7, hour = 9, minute = 5, second = k,
                 microsecond = 1234\<rparr>, (Suc k, written))),
      cache_to_file = (\<lambda>lf path name (k, written).
               Inr (path @ ''/'' @ name, (k, written @ [name])))\<rparr>"

definition example_datamart :: "lazyframe option \<Rightarrow> lazyframe option \<Rightarrow> datamart" where
  "example_datamart md pd =
     \<lparr>context_keys = [], model_data = md, predictor_data = pd, combined_data = None\<rparr>"

section \<open>Proofs\<close>

subsection \<open>Materialized rows\<close>

lemmas run_defs =
  validated_model_rows_def validated_predictor_rows_def validate_model_data_def
  validate_predictor_data_def init_def example_helpers_def model_frame_def
  polars_capitalize_def rename_schema_def rename_row_def names_def initial_context_keys_def
  apply_query_def combine_data_def collect_def success_rate_expr_def bin_propensity_expr_def
  bin_adjusted_propensity_expr_def apply_predictor_categorization_def numeric_def
  with_columns_schema_def with_columns_row_def keyed_model_frame_def untreated_model_frame_def
  extracting_helpers_def constructed_context_keys_def constructed_presence_def
  predictor_frame_def counted_predictor_frame_def categorized_predictor_frame_def
  counting_rule_def predictor_validation_state_def categorize_twice_def
  model_frame_without_snapshot_time_def model_frame_without_positives_def
  two_models_frame_def response_count_above_100_def constructed_predictor_rows_def

lemma map_of_with_columns_row1:
  "map_of (with_columns_row [(n, e)] r) k = (if k = n then Some (eval e r) else map_of r k)"
  by (simp add: with_columns_row_def update_conv')

lemma map_of_with_columns_row2:
  "map_of (with_columns_row [(n1, e1), (n2, e2)] r) k =
     (if k = n2 then Some (eval e2 r) else if k = n1 then Some (eval e1 r) else map_of r k)"
  by (simp add: with_columns_row_def update_conv')

lemma collect_rows_fold_filter:
  "collect_rows (fold (\<lambda>p acc. FilterRows acc p) ps d) =
     filter (\<lambda>r. \<forall>p\<in>set ps. eval p r = VBool True) (collect_rows d)"
proof (induction ps arbitrary: d)
  case Nil
  then show ?case by simp
next
  case (Cons p ps)
  show ?case by (simp add: Cons.IH conj_commute)
qed

lemma collect_rows_apply_query:
  "collect_rows (apply_query df query) =
     (case query of None \<Rightarrow> collect_rows df
      | Some ps \<Rightarrow> filter (\<lambda>r. \<forall>p\<in>set ps. eval p r = VBool True) (collect_rows df))"
  by (cases query) (simp_all add: apply_query_def collect_rows_fold_filter)

lemma collect_rows_apply_query_subset:
  "set (collect_rows (apply_query df query)) \<subseteq> set (collect_rows df)"
  by (auto simp: collect_rows_apply_query split: option.splits)

lemma collect_rows_eq: "collect lf = Inr t \<Longrightarrow> rows t = collect_rows lf"
  by (auto simp: collect_def split: sum.splits)

lemma success_rate_ok_derive:
  "success_rate_ok (with_columns_row [(''SuccessRate'', success_rate_expr)] r)"
  by (simp add: success_rate_ok_def map_of_with_columns_row1 success_rate_expr_def)

lemma success_rate_ok_snapshot:
  "success_rate_ok r \<Longrightarrow> success_rate_ok (with_columns_row [(''SnapshotTime'', e)] r)"
  by (simp add: success_rate_ok_def map_of_with_columns_row1)

lemma validate_model_data_Some:
  assumes "validate_model_data h keys (Some df) query ex = Inr (md, keys')"
  obtains sch df2 t where
    "collect_schema (polars_capitalize h df) = Inr sch"
    "(if ex \<and> ''Name'' \<in> set (names sch) then extract_keys h (polars_capitalize h df)
      else Inr (polars_capitalize h df)) = Inr df2"
    "map_of sch ''SnapshotTime'' = Some t"
    "keys' = filter (\<lambda>k. k \<in> set (names sch))
               (if ''Treatment'' \<in> set (names sch) then keys @ [''Treatment''] else keys)"
    "md = Some (apply_query
            (if t \<noteq> Datetime
             then WithColumns (WithColumns df2 [(''SuccessRate'', success_rate_expr)])
                    [(''SnapshotTime'', parse_pega_date_time_formats h)]
             else WithColumns df2 [(''SuccessRate'', success_rate_expr)]) query)"
  using assms
  by (auto simp: validate_model_data_def Let_def split: sum.splits option.splits if_splits)

lemma validated_rows_success_rate_ok:
  assumes "validate_model_data h keys (Some df) query ex = Inr (Some md, keys')"
      and "r \<in> set (collect_rows md)"
  shows "success_rate_ok r"
proof -
  from assms(1) obtain df2 t where
    md: "md = apply_query
            (if t \<noteq> Datetime
             then WithColumns (WithColumns df2 [(''SuccessRate'', success_rate_expr)])
                    [(''SnapshotTime'', parse_pega_date_time_formats h)]
             else WithColumns df2 [(''SuccessRate'', success_rate_expr)]) query"
    by (rule validate_model_data_Some) simp
  from assms(2) md collect_rows_apply_query_subset
  have "r \<in> set (collect_rows
            (if t \<noteq> Datetime
             then WithColumns (WithColumns df2 [(''SuccessRate'', success_rate_expr)])
                    [(''SnapshotTime'', parse_pega_date_time_formats h)]
             else WithColumns df2 [(''SuccessRate'', success_rate_expr)]))"
    by blast
  then show ?thesis
    by (auto simp: success_rate_ok_derive success_rate_ok_snapshot split: if_splits)
qed

lemma fill_nan_zero_not_nan: "val_fill_nan v (VNum (Fin 0)) \<noteq> VNum NaN"
  by (cases "(v, VNum (Fin 0))" rule: val_fill_nan.cases) auto

lemma ratio_in_unit_interval:
  "0 \<le> p \<Longrightarrow> p \<le> n \<Longrightarrow>
   in_unit_interval (val_fill_nan (val_div (VNum (Fin p)) (VNum (Fin n))) (VNum (Fin 0)))"
  by (auto simp: in_unit_interval_def)

subsection \<open>The success rate of a model row\<close>

text \<open>
  Claim C1, as the code has it. In every row of the materialized, validated model
  dataset, SuccessRate is Positives / ResponseCount with NaN replaced by 0: it is never
  NaN, it is exactly 0 where the ratio is NaN (0/0 among others), and it lies in [0,1]
  in every row whose counts are finite with 0 \<le> Positives \<le> ResponseCount. This holds
  for every query and every key extraction.
\<close>

theorem success_rate_derived:
  assumes "validate_model_data h keys (Some df) query ex = Inr (Some md, keys')"
      and "collect md = Inr t"
      and "r \<in> set (rows t)"
  shows "map_of r ''SuccessRate'' =
           Some (val_fill_nan (val_div (cell r ''Positives'') (cell r ''ResponseCount''))
                   (VNum (Fin 0)))
         \<and> cell r ''SuccessRate'' \<noteq> VNum NaN
         \<and> (val_div (cell r ''Positives'') (cell r ''ResponseCount'') = VNum NaN
              \<longrightarrow> cell r ''SuccessRate'' = VNum (Fin 0))
         \<and> (\<forall>p n. cell r ''Positives'' = VNum (Fin p) \<and> cell r ''ResponseCount'' = VNum (Fin n)
                \<and> 0 \<le> p \<and> p \<le> n
              \<longrightarrow> in_unit_interval (cell r ''SuccessRate''))"
proof -
  from assms(2,3) have "r \<in> set (collect_rows md)"
    by (simp add: collect_rows_eq)
  with assms(1) have ok: "success_rate_ok r"
    by (rule validated_rows_success_rate_ok)
  then have sr: "cell r ''SuccessRate'' =
      val_fill_nan (val_div (cell r ''Positives'') (cell r ''ResponseCount'')) (VNum (Fin 0))"
    by (simp add: success_rate_ok_def)
  show ?thesis
  proof (intro conjI allI impI)
    from ok show "map_of r ''SuccessRate'' =
        Some (val_fill_nan (val_div (cell r ''Positives'') (cell r ''ResponseCount''))
                (VNum (Fin 0)))"
      by (simp add: success_rate_ok_def)
  next
    show "cell r ''SuccessRate'' \<noteq> VNum NaN"
      unfolding sr by (rule fill_nan_zero_not_nan)
  next
    assume "val_div (cell r ''Positives'') (cell r ''ResponseCount'') = VNum NaN"
    then show "cell r ''SuccessRate'' = VNum (Fin 0)"
      unfolding sr by simp
  next
    fix p n
    assume "cell r ''Positives'' = VNum (Fin p) \<and> cell r ''ResponseCount'' = VNum (Fin n)
              \<and> 0 \<le> p \<and> p \<le> n"
    then show "in_unit_interval (cell r ''SuccessRate'')"
      unfolding sr using ratio_in_unit_interval [of p n] by simp
  qed
qed

text \<open>
  The two scenarios of the spec: 5 positives of 20 responses give 0.25, and 0 of 0 give
  0 and not NaN.
\<close>

theorem success_rate_derived_witness:
  "validated_model_rows example_helpers (model_frame (VNum (Fin 5)) (VNum (Fin 20))) None True
     = Inr [[(''Positives'', VNum (Fin 5)), (''ResponseCount'', VNum (Fin 20)),
             (''SnapshotTime'', VTime 0), (''SuccessRate'', VNum (Fin (1 / 4)))]]
   \<and> validated_model_rows example_helpers (model_frame (VNum (Fin 0)) (VNum (Fin 0))) None True
     = Inr [[(''Positives'', VNum (Fin 0)), (''ResponseCount'', VNum (Fin 0)),
             (''SnapshotTime'', VTime 0), (''SuccessRate'', VNum (Fin 0))]]
   \<and> in_unit_interval (VNum (Fin (1 / 4)))"
proof -
  define md where "md = WithColumns (Rename (\<lambda>n. n) (model_frame (VNum (Fin 5)) (VNum (Fin 20))))
    [(''SuccessRate'', success_rate_expr)]"
  define r where "r = [(''Positives'', VNum (Fin 5)), (''ResponseCount'', VNum (Fin 20)),
             (''SnapshotTime'', VTime 0), (''SuccessRate'', VNum (Fin (1 / 4)))]"
  have v: "validate_model_data example_helpers initial_context_keys
             (Some (model_frame (VNum (Fin 5)) (VNum (Fin 20)))) None True = Inr (Some md, [])"
    by (simp add: md_def run_defs)
  have c: "collect md = Inr \<lparr>schema = [(''Positives'', Float64), (''ResponseCount'', Float64),
                     (''SnapshotTime'', Datetime), (''SuccessRate'', Float64)], rows = [r]\<rparr>"
    by (simp add: md_def r_def run_defs)
  have "in_unit_interval (cell r ''SuccessRate'')"
    using success_rate_derived [OF v c, of r] by (simp add: r_def)
  then have "in_unit_interval (VNum (Fin (1 / 4)))"
    by (simp add: r_def)
  moreover have "validated_model_rows example_helpers (model_frame (VNum (Fin 5)) (VNum (Fin 20))) None True
     = Inr [[(''Positives'', VNum (Fin 5)), (''ResponseCount'', VNum (Fin 20)),
             (''SnapshotTime'', VTime 0), (''SuccessRate'', VNum (Fin (1 / 4)))]]"
    by (simp add: run_defs)
  moreover have "validated_model_rows example_helpers (model_frame (VNum (Fin 0)) (VNum (Fin 0))) None True
     = Inr [[(''Positives'', VNum (Fin 0)), (''ResponseCount'', VNum (Fin 0)),
             (''SnapshotTime'', VTime 0), (''SuccessRate'', VNum (Fin 0))]]"
    by (simp add: run_defs)
  ultimately show ?thesis by simp
qed

text \<open>
  The range does not hold for every row: 5 positives of 0 responses divide to plus
  infinity, which \<open>fill_nan\<close> leaves alone.
\<close>

theorem success_rate_range_counterexample:
  "validated_model_rows example_helpers (model_frame (VNum (Fin 5)) (VNum (Fin 0))) None True
     = Inr [[(''Positives'', VNum (Fin 5)), (''ResponseCount'', VNum (Fin 0)),
             (''SnapshotTime'', VTime 0), (''SuccessRate'', VNum PosInf)]]
   \<and> \<not> in_unit_interval (VNum PosInf)"
  by (simp add: run_defs in_unit_interval_def)

text \<open>
  Claim C9. In every row of the materialized, validated model dataset in which Positives
  or ResponseCount is null, SuccessRate is null and not 0: the guard replaces NaN only.
\<close>

theorem success_rate_null:
  assumes "validate_model_data h keys (Some df) query ex = Inr (Some md, keys')"
      and "collect md = Inr t"
      and "r \<in> set (rows t)"
      and "cell r ''Positives'' = VNull \<or> cell r ''ResponseCount'' = VNull"
  shows "map_of r ''SuccessRate'' = Some VNull"
proof -
  from assms(2,3) have "r \<in> set (collect_rows md)"
    by (simp add: collect_rows_eq)
  with assms(1) have "success_rate_ok r"
    by (rule validated_rows_success_rate_ok)
  moreover from assms(4)
  have "val_div (cell r ''Positives'') (cell r ''ResponseCount'') = VNull"
    by (cases "cell r ''Positives''") auto
  ultimately show ?thesis
    by (simp add: success_rate_ok_def)
qed

theorem success_rate_null_witness:
  "validated_model_rows example_helpers (model_frame VNull (VNum (Fin 20))) None True
     = Inr [[(''Positives'', VNull), (''ResponseCount'', VNum (Fin 20)),
             (''SnapshotTime'', VTime 0), (''SuccessRate'', VNull)]]
   \<and> map_of [(''Positives'', VNull), (''ResponseCount'', VNum (Fin 20)),
             (''SnapshotTime'', VTime 0), (''SuccessRate'', VNull)] ''SuccessRate''
     = Some VNull"
proof -
  define md where "md = WithColumns (Rename (\<lambda>n. n) (model_frame VNull (VNum (Fin 20))))
    [(''SuccessRate'', success_rate_expr)]"
  define r where "r = [(''Positives'', VNull), (''ResponseCount'', VNum (Fin 20)),
             (''SnapshotTime'', VTime 0), (''SuccessRate'', VNull)]"
  have v: "validate_model_data example_helpers initial_context_keys
             (Some (model_frame VNull (VNum (Fin 20)))) None True = Inr (Some md, [])"
    by (simp add: md_def run_defs)
  have c: "collect md = Inr \<lparr>schema = [(''Positives'', Float64), (''ResponseCount'', Float64),
                     (''SnapshotTime'', Datetime), (''SuccessRate'', Float64)], rows = [r]\<rparr>"
    by (simp add: md_def r_def run_defs)
  have "map_of r ''SuccessRate'' = Some VNull"
    using success_rate_null [OF v c, of r] by (simp add: r_def)
  moreover have "validated_model_rows example_helpers (model_frame VNull (VNum (Fin 20))) None True
     = Inr [r]"
    by (simp add: r_def run_defs)
  ultimately show ?thesis by (simp add: r_def)
qed

subsection \<open>Construction: context keys and the combined dataset\<close>

lemma init_Some_model:
  assumes "init h (Some df) predictor_df query ex s = Inr (dm, s')"
  obtains md where
    "validate_model_data h initial_context_keys (Some df) query ex = Inr (md, context_keys dm)"
    "model_data dm = md"
  using assms by (auto simp: init_def split: sum.splits prod.splits)

lemma candidates_filtered:
  "filter P (if P ''Treatment'' then initial_context_keys @ [''Treatment'']
             else initial_context_keys) = filter P context_key_candidates"
  by (simp add: initial_context_keys_def context_key_candidates_def)

lemma init_context_keys:
  assumes "init h (Some df) predictor_df query ex s = Inr (dm, s')"
  shows "\<exists>sch. collect_schema (polars_capitalize h df) = Inr sch
           \<and> context_keys dm = filter (\<lambda>k. k \<in> set (names sch)) context_key_candidates"
proof -
  from assms obtain md where
    v: "validate_model_data h initial_context_keys (Some df) query ex = Inr (md, context_keys dm)"
    by (rule init_Some_model)
  from v obtain sch where
    sch: "collect_schema (polars_capitalize h df) = Inr sch" and
    ck: "context_keys dm = filter (\<lambda>k. k \<in> set (names sch))
           (if ''Treatment'' \<in> set (names sch) then initial_context_keys @ [''Treatment'']
            else initial_context_keys)"
    by (rule validate_model_data_Some)
  from ck have "context_keys dm = filter (\<lambda>k. k \<in> set (names sch)) context_key_candidates"
    by (simp only: candidates_filtered [of "\<lambda>k. k \<in> set (names sch)"])
  with sch show ?thesis by blast
qed

lemma init_None_model:
  "init h None predictor_df query ex s = Inr (dm, s') \<Longrightarrow>
     context_keys dm = initial_context_keys \<and> model_data dm = None \<and> combined_data dm = None"
  by (auto simp: init_def validate_model_data_def combine_data_def split: sum.splits prod.splits)

text \<open>
  Claim C3. After a construction with a model dataset, the context keys are the six
  candidates Channel, Direction, Issue, Group, Name, Treatment filtered, in that order,
  to the columns of the model schema: a subsequence of the candidates, holding exactly
  the candidates that are columns, Treatment among them if and only if it is a column.
  The schema is the one the code resolves, after the column names are normalized and
  before keys are extracted. Without a model dataset the keys stay the five initial ones.
\<close>

theorem context_keys_selected:
  "(init h (Some df) predictor_df query ex s = Inr (dm, s') \<longrightarrow>
      (\<exists>sch. collect_schema (polars_capitalize h df) = Inr sch
         \<and> context_keys dm = filter (\<lambda>k. k \<in> set (names sch)) context_key_candidates
         \<and> subseq (context_keys dm) context_key_candidates
         \<and> (\<forall>k. k \<in> set (context_keys dm)
                \<longleftrightarrow> k \<in> set context_key_candidates \<and> k \<in> set (names sch))
         \<and> (''Treatment'' \<in> set (context_keys dm) \<longleftrightarrow> ''Treatment'' \<in> set (names sch))))
   \<and> (init h None predictor_df query ex s = Inr (dm, s') \<longrightarrow>
        context_keys dm = initial_context_keys)"
proof (intro conjI impI)
  assume i: "init h (Some df) predictor_df query ex s = Inr (dm, s')"
  from init_context_keys [OF i] obtain sch where
    sch: "collect_schema (polars_capitalize h df) = Inr sch" and
    ck: "context_keys dm = filter (\<lambda>k. k \<in> set (names sch)) context_key_candidates"
    by (elim exE conjE)
  have "subseq (context_keys dm) context_key_candidates"
    unfolding ck by (rule subseq_filter_left)
  moreover have "\<forall>k. k \<in> set (context_keys dm)
                \<longleftrightarrow> k \<in> set context_key_candidates \<and> k \<in> set (names sch)"
    unfolding ck by auto
  moreover have "''Treatment'' \<in> set (context_keys dm) \<longleftrightarrow> ''Treatment'' \<in> set (names sch)"
    unfolding ck by (simp add: context_key_candidates_def)
  ultimately show "\<exists>sch. collect_schema (polars_capitalize h df) = Inr sch
         \<and> context_keys dm = filter (\<lambda>k. k \<in> set (names sch)) context_key_candidates
         \<and> subseq (context_keys dm) context_key_candidates
         \<and> (\<forall>k. k \<in> set (context_keys dm)
                \<longleftrightarrow> k \<in> set context_key_candidates \<and> k \<in> set (names sch))
         \<and> (''Treatment'' \<in> set (context_keys dm) \<longleftrightarrow> ''Treatment'' \<in> set (names sch))"
    using sch ck by blast
next
  assume "init h None predictor_df query ex s = Inr (dm, s')"
  then show "context_keys dm = initial_context_keys"
    by (simp add: init_None_model)
qed

theorem context_keys_selected_witness:
  "constructed_context_keys example_helpers (Some keyed_model_frame) None None True 0
     = Inr [''Channel'', ''Name'', ''Treatment'']
   \<and> constructed_context_keys example_helpers (Some untreated_model_frame) None None True 0
     = Inr [''Channel'', ''Name'']
   \<and> constructed_context_keys example_helpers None None None True 0
     = Inr [''Channel'', ''Direction'', ''Issue'', ''Group'', ''Name'']"
proof -
  obtain dm where i: "init example_helpers (Some keyed_model_frame) None None True 0 = Inr (dm, 0)"
    by (simp add: run_defs)
  obtain dm' where i': "init example_helpers None None None True 0 = Inr (dm', 0)"
    by (simp add: run_defs)
  have sch: "collect_schema (polars_capitalize example_helpers keyed_model_frame) =
      Inr [(''Channel'', Utf8), (''Name'', Utf8), (''Treatment'', Utf8),
           (''Positives'', Float64), (''ResponseCount'', Float64), (''SnapshotTime'', Datetime)]"
    by (simp add: run_defs)
  from context_keys_selected [of example_helpers keyed_model_frame None None True 0 dm 0] i sch
  have "context_keys dm = [''Channel'', ''Name'', ''Treatment'']"
    by (simp add: context_key_candidates_def names_def)
  with i have 1: "constructed_context_keys example_helpers (Some keyed_model_frame) None None True 0
     = Inr [''Channel'', ''Name'', ''Treatment'']"
    by (simp add: constructed_context_keys_def)
  from context_keys_selected [of example_helpers keyed_model_frame None None True 0 dm' 0] i'
  have "context_keys dm' = initial_context_keys"
    by simp
  with i' have 2: "constructed_context_keys example_helpers None None None True 0
     = Inr [''Channel'', ''Direction'', ''Issue'', ''Group'', ''Name'']"
    by (simp add: constructed_context_keys_def initial_context_keys_def)
  have 3: "constructed_context_keys example_helpers (Some untreated_model_frame) None None True 0
     = Inr [''Channel'', ''Name'']"
    by (simp add: run_defs)
  from 1 2 3 show ?thesis by simp
qed

text \<open>
  Claim C10. The context keys are read off the schema resolved before key extraction
  runs: every context key is a column of that schema, so a column that extraction adds
  (a Treatment column too) is never a context key, and replacing the extraction by any
  other leaves the context keys as they are.
\<close>

theorem context_keys_ignore_extracted_columns:
  assumes "init h (Some df) predictor_df query ex s = Inr (dm, s')"
      and "collect_schema (polars_capitalize h df) = Inr sch"
  shows "set (context_keys dm) \<subseteq> set (names sch)
         \<and> (\<forall>g dm2 s2.
               init (h\<lparr>extract_keys := g\<rparr>) (Some df) predictor_df query ex s = Inr (dm2, s2)
               \<longrightarrow> context_keys dm2 = context_keys dm)"
proof (intro conjI allI impI)
  from init_context_keys [OF assms(1)] assms(2)
  have ck: "context_keys dm = filter (\<lambda>k. k \<in> set (names sch)) context_key_candidates"
    by simp
  then show "set (context_keys dm) \<subseteq> set (names sch)"
    by auto
  fix g dm2 s2
  assume "init (h\<lparr>extract_keys := g\<rparr>) (Some df) predictor_df query ex s = Inr (dm2, s2)"
  from init_context_keys [OF this] assms(2)
  have "context_keys dm2 = filter (\<lambda>k. k \<in> set (names sch)) context_key_candidates"
    by (simp add: polars_capitalize_def)
  with ck show "context_keys dm2 = context_keys dm"
    by simp
qed

theorem context_keys_ignore_extracted_columns_witness:
  "validated_model_rows extracting_helpers untreated_model_frame None True
     = Inr [[(''Channel'', VStr ''Web''), (''Name'', VStr ''Offer''),
             (''Positives'', VNum (Fin 5)), (''ResponseCount'', VNum (Fin 20)),
             (''SnapshotTime'', VTime 0), (''Treatment'', VStr ''Banner''),
             (''SuccessRate'', VNum (Fin (1 / 4)))]]
   \<and> constructed_context_keys extracting_helpers (Some untreated_model_frame) None None True 0
     = Inr [''Channel'', ''Name'']
   \<and> constructed_context_keys example_helpers (Some untreated_model_frame) None None True 0
     = Inr [''Channel'', ''Name'']"
proof -
  obtain dm where
    i: "init extracting_helpers (Some untreated_model_frame) None None True 0 = Inr (dm, 0)"
    by (simp add: run_defs)
  obtain dm2 where
    i2: "init example_helpers (Some untreated_model_frame) None None True 0 = Inr (dm2, 0)"
    by (simp add: run_defs)
  have sch: "collect_schema (polars_capitalize extracting_helpers untreated_model_frame) =
      Inr [(''Channel'', Utf8), (''Name'', Utf8),
           (''Positives'', Float64), (''ResponseCount'', Float64), (''SnapshotTime'', Datetime)]"
    by (simp add: run_defs)
  have restored: "extracting_helpers\<lparr>extract_keys := (\<lambda>df. Inr df)\<rparr> = example_helpers"
    by (simp add: extracting_helpers_def example_helpers_def)
  have ck: "constructed_context_keys extracting_helpers (Some untreated_model_frame) None None True 0
     = Inr [''Channel'', ''Name'']"
    by (simp add: run_defs)
  with i have "context_keys dm = [''Channel'', ''Name'']"
    by (simp add: constructed_context_keys_def)
  moreover from context_keys_ignore_extracted_columns [OF i sch] i2 restored
  have "context_keys dm2 = context_keys dm"
    by metis
  ultimately have "constructed_context_keys example_helpers (Some untreated_model_frame) None None True 0
     = Inr [''Channel'', ''Name'']"
    using i2 by (simp add: constructed_context_keys_def)
  moreover have "validated_model_rows extracting_helpers untreated_model_frame None True
     = Inr [[(''Channel'', VStr ''Web''), (''Name'', VStr ''Offer''),
             (''Positives'', VNum (Fin 5)), (''ResponseCount'', VNum (Fin 20)),
             (''SnapshotTime'', VTime 0), (''Treatment'', VStr ''Banner''),
             (''SuccessRate'', VNum (Fin (1 / 4)))]]"
    by (simp add: run_defs)
  ultimately show ?thesis using ck by simp
qed

text \<open>
  Claim C4. In every constructed datamart the combined dataset is absent if the model
  dataset or the predictor dataset is absent, and each of the two is present exactly
  when it was given; a construction without predictor data succeeds whenever the model
  data validates, and keeps the validated model data.
\<close>

theorem combined_absent_when_a_source_is_absent:
  "(init h model_df predictor_df query ex s = Inr (dm, s') \<longrightarrow>
      (model_df = None \<or> predictor_df = None \<longrightarrow> combined_data dm = None)
      \<and> (model_data dm = None \<longleftrightarrow> model_df = None)
      \<and> (predictor_data dm = None \<longleftrightarrow> predictor_df = None))
   \<and> (validate_model_data h initial_context_keys model_df query ex = Inr (md, keys) \<longrightarrow>
        init h model_df None query ex s =
          Inr (\<lparr>context_keys = keys, model_data = md, predictor_data = None,
                combined_data = None\<rparr>, s))"
proof (intro conjI impI)
  assume i: "init h model_df predictor_df query ex s = Inr (dm, s')"
  then obtain md0 pd0 where
    v: "validate_model_data h initial_context_keys model_df query ex = Inr (md0, context_keys dm)"
    and p: "validate_predictor_data h predictor_df s = Inr (pd0, s')"
    and m: "model_data dm = md0" and pp: "predictor_data dm = pd0"
    and c: "combined_data dm = combine_data h md0 pd0"
    by (auto simp: init_def split: sum.splits prod.splits)
  have m_iff: "md0 = None \<longleftrightarrow> model_df = None"
    using v by (auto simp: validate_model_data_def Let_def
        split: option.splits sum.splits if_splits)
  have p_iff: "pd0 = None \<longleftrightarrow> predictor_df = None"
    using p by (auto simp: validate_predictor_data_def Let_def apply_predictor_categorization_def
        split: option.splits sum.splits if_splits prod.splits)
  show "model_data dm = None \<longleftrightarrow> model_df = None" using m m_iff by simp
  show "predictor_data dm = None \<longleftrightarrow> predictor_df = None" using pp p_iff by simp
  assume "model_df = None \<or> predictor_df = None"
  with m_iff p_iff have "md0 = None \<or> pd0 = None" by simp
  with c show "combined_data dm = None"
    by (auto simp: combine_data_def split: option.splits)
next
  assume "validate_model_data h initial_context_keys model_df query ex = Inr (md, keys)"
  then show "init h model_df None query ex s =
          Inr (\<lparr>context_keys = keys, model_data = md, predictor_data = None,
                combined_data = None\<rparr>, s)"
    by (simp add: init_def validate_predictor_data_def combine_data_def split: option.splits)
qed

theorem combined_absent_when_a_source_is_absent_witness:
  "constructed_presence example_helpers (Some keyed_model_frame) None None True 0
     = Inr (True, False, False)
   \<and> constructed_presence example_helpers None
       (Some (predictor_frame (VNum (Fin 0)) (VNum (Fin 0)))) None True 0
     = Inr (False, True, False)
   \<and> constructed_presence example_helpers (Some keyed_model_frame)
       (Some (predictor_frame (VNum (Fin 0)) (VNum (Fin 0)))) None True 0
     = Inr (True, True, True)"
proof -
  obtain dm where
    i: "init example_helpers (Some keyed_model_frame) None None True 0 = Inr (dm, 0)"
    by (simp add: run_defs)
  from combined_absent_when_a_source_is_absent
    [of example_helpers "Some keyed_model_frame" None None True 0 dm 0] i
  have "combined_data dm = None \<and> model_data dm \<noteq> None \<and> predictor_data dm = None"
    by simp
  with i have "constructed_presence example_helpers (Some keyed_model_frame) None None True 0
     = Inr (True, False, False)"
    by (simp add: constructed_presence_def)
  moreover have "constructed_presence example_helpers None
       (Some (predictor_frame (VNum (Fin 0)) (VNum (Fin 0)))) None True 0
     = Inr (False, True, False)"
    by (simp add: run_defs)
  moreover have "constructed_presence example_helpers (Some keyed_model_frame)
       (Some (predictor_frame (VNum (Fin 0)) (VNum (Fin 0)))) None True 0
     = Inr (True, True, True)"
    by (simp add: run_defs)
  ultimately show ?thesis by simp
qed

subsection \<open>The predictor side: adjusted propensity and categorization\<close>

lemma validate_predictor_data_Some:
  assumes "validate_predictor_data h (Some df) s = Inr (pd, s')"
  obtains sch where
    "collect_schema (polars_capitalize h df) = Inr sch"
    "pd = Some
       (let df2 = (if ''BinResponseCount'' \<notin> set (names sch)
                   then WithColumns (polars_capitalize h df)
                          [(''BinResponseCount'',
                            Add (Col ''BinPositives'') (Col ''BinNegatives''))]
                   else polars_capitalize h df);
            df3 = WithColumns df2
                    [(''BinPropensity'', bin_propensity_expr),
                     (''BinAdjustedPropensity'', bin_adjusted_propensity_expr)]
        in if ''PredictorCategory'' \<notin> set (names sch)
           then WithColumns df3
                  [(''PredictorCategory'', fst (default_predictor_categorization h s))]
           else df3)"
    "s' = (if ''PredictorCategory'' \<notin> set (names sch)
           then snd (default_predictor_categorization h s) else s)"
  using assms
  by (auto simp: validate_predictor_data_def Let_def apply_predictor_categorization_def
      split: sum.splits if_splits prod.splits)

lemma adjusted_propensity_ok_derive:
  "adjusted_propensity_ok
     (with_columns_row [(''BinPropensity'', bin_propensity_expr),
                        (''BinAdjustedPropensity'', bin_adjusted_propensity_expr)] r)"
  by (simp add: adjusted_propensity_ok_def map_of_with_columns_row2
      bin_adjusted_propensity_expr_def)

lemma adjusted_propensity_ok_category:
  "adjusted_propensity_ok r \<Longrightarrow>
   adjusted_propensity_ok (with_columns_row [(''PredictorCategory'', e)] r)"
  by (simp add: adjusted_propensity_ok_def map_of_with_columns_row1)

lemma response_count_ok_derive:
  "response_count_ok
     (with_columns_row
        [(''BinResponseCount'', Add (Col ''BinPositives'') (Col ''BinNegatives''))] r)"
  by (simp add: response_count_ok_def map_of_with_columns_row1)

lemma response_count_ok_propensity:
  "response_count_ok r \<Longrightarrow>
   response_count_ok
     (with_columns_row [(''BinPropensity'', e1), (''BinAdjustedPropensity'', e2)] r)"
  by (simp add: response_count_ok_def map_of_with_columns_row2)

lemma response_count_ok_category:
  "response_count_ok r \<Longrightarrow>
   response_count_ok (with_columns_row [(''PredictorCategory'', e)] r)"
  by (simp add: response_count_ok_def map_of_with_columns_row1)

lemma validated_predictor_rows_ok:
  assumes "validate_predictor_data h (Some df) s = Inr (Some pd, s')"
      and "r \<in> set (collect_rows pd)"
  shows "adjusted_propensity_ok r"
    and "collect_schema (polars_capitalize h df) = Inr sch \<Longrightarrow>
         ''BinResponseCount'' \<notin> set (names sch) \<Longrightarrow> response_count_ok r"
proof -
  from assms(1) obtain sch0 where
    sch0: "collect_schema (polars_capitalize h df) = Inr sch0" and
    pd: "Some pd = Some
       (let df2 = (if ''BinResponseCount'' \<notin> set (names sch0)
                   then WithColumns (polars_capitalize h df)
                          [(''BinResponseCount'',
                            Add (Col ''BinPositives'') (Col ''BinNegatives''))]
                   else polars_capitalize h df);
            df3 = WithColumns df2
                    [(''BinPropensity'', bin_propensity_expr),
                     (''BinAdjustedPropensity'', bin_adjusted_propensity_expr)]
        in if ''PredictorCategory'' \<notin> set (names sch0)
           then WithColumns df3
                  [(''PredictorCategory'', fst (default_predictor_categorization h s))]
           else df3)"
    by (rule validate_predictor_data_Some)
  from pd assms(2) show "adjusted_propensity_ok r"
    by (auto simp: Let_def adjusted_propensity_ok_derive adjusted_propensity_ok_category
        split: if_splits)
  assume "collect_schema (polars_capitalize h df) = Inr sch"
     and "''BinResponseCount'' \<notin> set (names sch)"
  with sch0 have "''BinResponseCount'' \<notin> set (names sch0)" by simp
  with pd assms(2) show "response_count_ok r"
    by (auto simp: Let_def response_count_ok_derive response_count_ok_propensity
        response_count_ok_category split: if_splits)
qed

lemma laplace_margin:
  assumes "a + b < 2 ^ 52"
  shows "val_div (val_add (VNum (Fin (real a))) (VNum (Fin 0.5)))
                 (val_add (VNum (Fin (real (a + b)))) (VNum (Fin 1)))
           = VNum (Fin ((real a + 0.5) / (real a + real b + 1)))"
    and "1 / 2 ^ 53 \<le> (real a + 0.5) / (real a + real b + 1)"
    and "(real a + 0.5) / (real a + real b + 1) \<le> 1 - 1 / 2 ^ 53"
proof -
  from assms have "a + b + 1 \<le> 2 ^ 52" by simp
  then have "real (a + b + 1) \<le> real (2 ^ 52)"
    by (rule of_nat_mono)
  then have d: "real a + real b + 1 \<le> 2 ^ 52" by simp
  have pos: "0 < real a + real b + 1" by (simp add: add_nonneg_pos)
  show "val_div (val_add (VNum (Fin (real a))) (VNum (Fin 0.5)))
                 (val_add (VNum (Fin (real (a + b)))) (VNum (Fin 1)))
           = VNum (Fin ((real a + 0.5) / (real a + real b + 1)))"
    using pos by (simp add: add.assoc)
  have "real a + real b + 1 \<le> (real a + 0.5) * 2 ^ 53"
    using d by (simp add: algebra_simps)
  with pos show "1 / 2 ^ 53 \<le> (real a + 0.5) / (real a + real b + 1)"
    by (simp add: field_simps)
  have "real a + real b + 1 \<le> (real b + 0.5) * 2 ^ 53"
    using d by (simp add: algebra_simps)
  with pos show "(real a + 0.5) / (real a + real b + 1) \<le> 1 - 1 / 2 ^ 53"
    by (simp add: field_simps)
qed

text \<open>
  Claim C2, as the code has it. In every row of the materialized, validated predictor
  dataset, BinAdjustedPropensity is (BinPositives + 0.5) / (BinResponseCount + 1). Where
  the input has no BinResponseCount column, that column is BinPositives + BinNegatives.
  In every row whose BinPositives and BinNegatives are whole numbers with a sum below
  \<open>2^52\<close> and whose BinResponseCount is that sum (as it is when the column is derived),
  the adjusted propensity lies strictly between 0 and 1, and at least \<open>2^-53\<close> away
  from both. The bound on the counts is what Float64 needs: below it both sums of the
  expression are exact in Float64, and \<open>2^-53\<close> and \<open>1 - 2^-53\<close> are Float64 values,
  so the correctly rounded quotient stays between them. Beyond it the statement is not
  made: in Float64, \<open>2^53 + 0.5\<close> is \<open>2^53\<close> and the quotient can be exactly 1.
\<close>

theorem adjusted_propensity_derived:
  assumes "validate_predictor_data h (Some df) s = Inr (Some pd, s')"
      and "collect pd = Inr t"
      and "r \<in> set (rows t)"
  shows "map_of r ''BinAdjustedPropensity'' =
           Some (val_div (val_add (cell r ''BinPositives'') (VNum (Fin 0.5)))
                         (val_add (cell r ''BinResponseCount'') (VNum (Fin 1))))
         \<and> (\<forall>sch. collect_schema (polars_capitalize h df) = Inr sch
                \<and> ''BinResponseCount'' \<notin> set (names sch)
              \<longrightarrow> map_of r ''BinResponseCount'' =
                    Some (val_add (cell r ''BinPositives'') (cell r ''BinNegatives'')))
         \<and> (\<forall>a b. cell r ''BinPositives'' = VNum (Fin (real a))
                \<and> cell r ''BinNegatives'' = VNum (Fin (real b))
                \<and> a + b < 2 ^ 52
                \<and> cell r ''BinResponseCount'' = VNum (Fin (real (a + b)))
              \<longrightarrow> (\<exists>x. cell r ''BinAdjustedPropensity'' = VNum (Fin x)
                        \<and> 1 / 2 ^ 53 \<le> x \<and> x \<le> 1 - 1 / 2 ^ 53)
                  \<and> strictly_inside_unit_interval (cell r ''BinAdjustedPropensity''))"
proof -
  from assms(2,3) have r: "r \<in> set (collect_rows pd)"
    by (simp add: collect_rows_eq)
  from validated_predictor_rows_ok(1) [OF assms(1) r]
  have ap: "map_of r ''BinAdjustedPropensity'' =
           Some (val_div (val_add (cell r ''BinPositives'') (VNum (Fin 0.5)))
                         (val_add (cell r ''BinResponseCount'') (VNum (Fin 1))))"
    by (simp add: adjusted_propensity_ok_def)
  have rc: "map_of r ''BinResponseCount'' =
              Some (val_add (cell r ''BinPositives'') (cell r ''BinNegatives''))"
    if "collect_schema (polars_capitalize h df) = Inr sch"
       "''BinResponseCount'' \<notin> set (names sch)" for sch
    using validated_predictor_rows_ok(2) [OF assms(1) r that]
    by (simp add: response_count_ok_def)
  have inside: "(\<exists>x. cell r ''BinAdjustedPropensity'' = VNum (Fin x)
                        \<and> 1 / 2 ^ 53 \<le> x \<and> x \<le> 1 - 1 / 2 ^ 53)
                  \<and> strictly_inside_unit_interval (cell r ''BinAdjustedPropensity'')"
    if "cell r ''BinPositives'' = VNum (Fin (real a))"
       "cell r ''BinResponseCount'' = VNum (Fin (real (a + b)))"
       "a + b < 2 ^ 52" for a b
  proof -
    from ap that(1,2)
    have "cell r ''BinAdjustedPropensity'' =
            val_div (val_add (VNum (Fin (real a))) (VNum (Fin 0.5)))
                    (val_add (VNum (Fin (real (a + b)))) (VNum (Fin 1)))"
      by simp
    with laplace_margin(1) [OF that(3)]
    have v: "cell r ''BinAdjustedPropensity'' =
               VNum (Fin ((real a + 0.5) / (real a + real b + 1)))"
      by simp
    note lo = laplace_margin(2) [OF that(3)] and hi = laplace_margin(3) [OF that(3)]
    from lo have "0 < (real a + 0.5) / (real a + real b + 1)"
      by (rule less_le_trans [rotated]) simp
    moreover from hi have "(real a + 0.5) / (real a + real b + 1) < 1"
      by (rule le_less_trans) simp
    ultimately
    have "strictly_inside_unit_interval (VNum (Fin ((real a + 0.5) / (real a + real b + 1))))"
      by (simp add: strictly_inside_unit_interval_def)
    then have "strictly_inside_unit_interval (cell r ''BinAdjustedPropensity'')"
      by (simp only: v)
    with v lo hi show ?thesis
      by blast
  qed
  from ap rc inside show ?thesis
    by blast
qed

text \<open>
  The scenario of the spec: no positives, no negatives and no BinResponseCount column give
  a response count of 0 and an adjusted propensity of 0.5 (the plain propensity is NaN).
\<close>

theorem adjusted_propensity_derived_witness:
  "validated_predictor_rows example_helpers (predictor_frame (VNum (Fin 0)) (VNum (Fin 0))) 0
     = Inr [[(''BinPositives'', VNum (Fin 0)), (''BinNegatives'', VNum (Fin 0)),
             (''BinResponseCount'', VNum (Fin 0)), (''BinPropensity'', VNum NaN),
             (''BinAdjustedPropensity'', VNum (Fin (1 / 2))),
             (''PredictorCategory'', VStr ''Primary'')]]
   \<and> strictly_inside_unit_interval (VNum (Fin (1 / 2)))"
proof -
  define r where "r = [(''BinPositives'', VNum (Fin 0)), (''BinNegatives'', VNum (Fin 0)),
             (''BinResponseCount'', VNum (Fin 0)), (''BinPropensity'', VNum NaN),
             (''BinAdjustedPropensity'', VNum (Fin (1 / 2))),
             (''PredictorCategory'', VStr ''Primary'')]"
  obtain pd t where
    v: "validate_predictor_data example_helpers
          (Some (predictor_frame (VNum (Fin 0)) (VNum (Fin 0)))) 0 = Inr (Some pd, 1)" and
    c: "collect pd = Inr t" and
    rs: "rows t = [r]"
    by (simp add: r_def run_defs)
  from rs have m: "r \<in> set (rows t)" by simp
  note th = conjunct2 [OF conjunct2 [OF adjusted_propensity_derived [OF v c m]]]
  from th [rule_format, of 0 0]
  have "strictly_inside_unit_interval (cell r ''BinAdjustedPropensity'')"
    by (simp add: r_def)
  then have "strictly_inside_unit_interval (VNum (Fin (1 / 2)))"
    by (simp add: r_def)
  moreover
  have "validated_predictor_rows example_helpers (predictor_frame (VNum (Fin 0)) (VNum (Fin 0))) 0
     = Inr [r]"
    by (simp add: r_def run_defs)
  ultimately show ?thesis by (simp add: r_def)
qed

text \<open>
  Non-negative BinPositives and BinNegatives alone do not bound the value: a
  BinResponseCount column of the input is used as it is, and 5 positives with a response
  count of 0 give 5.5.
\<close>

theorem adjusted_propensity_range_counterexample:
  "validated_predictor_rows example_helpers
     (counted_predictor_frame (VNum (Fin 5)) (VNum (Fin 0)) (VNum (Fin 0))) 0
     = Inr [[(''BinPositives'', VNum (Fin 5)), (''BinNegatives'', VNum (Fin 0)),
             (''BinResponseCount'', VNum (Fin 0)), (''BinPropensity'', VNum PosInf),
             (''BinAdjustedPropensity'', VNum (Fin (11 / 2))),
             (''PredictorCategory'', VStr ''Primary'')]]
   \<and> \<not> strictly_inside_unit_interval (VNum (Fin (11 / 2)))"
  by (simp add: run_defs strictly_inside_unit_interval_def)

text \<open>
  Claim C7. Predictor validation applies the categorization if and only if the normalized
  input schema has no PredictorCategory column: without the column the default rule is
  called once (the state is the one a single call leaves) and its expression is written;
  with the column the rule is not called and the column's content is that of the input.
  \<open>apply_predictor_categorization\<close> itself has no such check: it calls a callable rule
  once and writes PredictorCategory in every row, whatever the row held.
\<close>

theorem categorization_guarded_at_call_site:
  "(validate_predictor_data h (Some df) s = Inr (pd, s')
      \<and> collect_schema (polars_capitalize h df) = Inr sch \<longrightarrow>
      (''PredictorCategory'' \<notin> set (names sch) \<longrightarrow>
         s' = snd (default_predictor_categorization h s)
         \<and> (\<exists>lf. pd = Some (WithColumns lf
               [(''PredictorCategory'', fst (default_predictor_categorization h s))])))
      \<and> (''PredictorCategory'' \<in> set (names sch) \<longrightarrow>
         s' = s
         \<and> (\<exists>lf. pd = Some lf
              \<and> map (\<lambda>r. map_of r ''PredictorCategory'') (collect_rows lf)
                = map (\<lambda>r. map_of r ''PredictorCategory'')
                    (collect_rows (polars_capitalize h df)))))
   \<and> apply_predictor_categorization lf0 c s
       = (WithColumns lf0 [(''PredictorCategory'', fst (resolve_categorization c s))],
          snd (resolve_categorization c s))
   \<and> resolve_categorization (CatCallable f) s = f s
   \<and> collect_rows (fst (apply_predictor_categorization lf0 c s))
       = map (\<lambda>r. AList.update ''PredictorCategory''
                     (eval (fst (resolve_categorization c s)) r) r)
           (collect_rows lf0)"
proof (intro conjI impI)
  assume a: "validate_predictor_data h (Some df) s = Inr (pd, s')
      \<and> collect_schema (polars_capitalize h df) = Inr sch"
  then have v: "validate_predictor_data h (Some df) s = Inr (pd, s')"
    and sch: "collect_schema (polars_capitalize h df) = Inr sch"
    by simp_all
  {
    assume n: "''PredictorCategory'' \<notin> set (names sch)"
    from v sch n show "s' = snd (default_predictor_categorization h s)"
      by (auto simp: validate_predictor_data_def Let_def apply_predictor_categorization_def
          split: sum.splits if_splits prod.splits)
    from v sch n show "\<exists>lf. pd = Some (WithColumns lf
               [(''PredictorCategory'', fst (default_predictor_categorization h s))])"
      by (auto simp: validate_predictor_data_def Let_def apply_predictor_categorization_def
          split: sum.splits if_splits prod.splits)
  }
  {
    assume y: "''PredictorCategory'' \<in> set (names sch)"
    from v sch y show "s' = s"
      by (auto simp: validate_predictor_data_def Let_def split: sum.splits if_splits)
    from v sch y show "\<exists>lf. pd = Some lf
              \<and> map (\<lambda>r. map_of r ''PredictorCategory'') (collect_rows lf)
                = map (\<lambda>r. map_of r ''PredictorCategory'')
                    (collect_rows (polars_capitalize h df))"
      by (auto simp: validate_predictor_data_def Let_def map_of_with_columns_row1
          map_of_with_columns_row2 split: sum.splits if_splits)
  }
next
  show "apply_predictor_categorization lf0 c s
       = (WithColumns lf0 [(''PredictorCategory'', fst (resolve_categorization c s))],
          snd (resolve_categorization c s))"
    by (simp add: apply_predictor_categorization_def split: prod.splits)
  show "resolve_categorization (CatCallable f) s = f s"
    by simp
  show "collect_rows (fst (apply_predictor_categorization lf0 c s))
       = map (\<lambda>r. AList.update ''PredictorCategory''
                     (eval (fst (resolve_categorization c s)) r) r)
           (collect_rows lf0)"
    by (simp add: apply_predictor_categorization_def with_columns_row_def split: prod.splits)
qed

text \<open>
  Validating categorized data keeps the category Custom and does not call the rule;
  a direct call overwrites it, and a second direct call overwrites it again with what
  the rule returns then: the operation is not idempotent.
\<close>

theorem categorization_guarded_at_call_site_witness:
  "validated_predictor_rows example_helpers categorized_predictor_frame 0
     = Inr [[(''BinPositives'', VNum (Fin 3)), (''BinNegatives'', VNum (Fin 7)),
             (''PredictorCategory'', VStr ''Custom''), (''BinResponseCount'', VNum (Fin 10)),
             (''BinPropensity'', VNum (Fin (3 / 10))),
             (''BinAdjustedPropensity'', VNum (Fin (7 / 22)))]]
   \<and> predictor_validation_state example_helpers categorized_predictor_frame 0 = Inr 0
   \<and> predictor_validation_state example_helpers
       (predictor_frame (VNum (Fin 0)) (VNum (Fin 0))) 0 = Inr 1
   \<and> collect_rows (fst (apply_predictor_categorization categorized_predictor_frame
                          (CatCallable counting_rule) 0))
     = [[(''BinPositives'', VNum (Fin 3)), (''BinNegatives'', VNum (Fin 7)),
         (''PredictorCategory'', VNum (Fin 0))]]
   \<and> collect_rows (fst (categorize_twice categorized_predictor_frame
                          (CatCallable counting_rule) 0))
     = [[(''BinPositives'', VNum (Fin 3)), (''BinNegatives'', VNum (Fin 7)),
         (''PredictorCategory'', VNum (Fin 1))]]
   \<and> snd (categorize_twice categorized_predictor_frame (CatCallable counting_rule) 0) = 2"
proof -
  obtain pd where
    v: "validate_predictor_data example_helpers (Some categorized_predictor_frame) 0
          = Inr (pd, 0)"
    by (simp add: run_defs)
  have sch: "collect_schema (polars_capitalize example_helpers categorized_predictor_frame)
      = Inr [(''BinPositives'', Float64), (''BinNegatives'', Float64),
             (''PredictorCategory'', Utf8)]"
    by (simp add: run_defs)
  note guarded = categorization_guarded_at_call_site
    [of example_helpers categorized_predictor_frame 0 pd 0
        "[(''BinPositives'', Float64), (''BinNegatives'', Float64),
          (''PredictorCategory'', Utf8)]"
        categorized_predictor_frame "CatCallable counting_rule" counting_rule]
  from conjunct2 [OF conjunct2 [OF conjunct2 [OF guarded]]]
  have once: "collect_rows (fst (apply_predictor_categorization categorized_predictor_frame
                          (CatCallable counting_rule) 0))
     = [[(''BinPositives'', VNum (Fin 3)), (''BinNegatives'', VNum (Fin 7)),
         (''PredictorCategory'', VNum (Fin 0))]]"
    by (simp add: categorized_predictor_frame_def counting_rule_def)
  have rest: "validated_predictor_rows example_helpers categorized_predictor_frame 0
     = Inr [[(''BinPositives'', VNum (Fin 3)), (''BinNegatives'', VNum (Fin 7)),
             (''PredictorCategory'', VStr ''Custom''), (''BinResponseCount'', VNum (Fin 10)),
             (''BinPropensity'', VNum (Fin (3 / 10))),
             (''BinAdjustedPropensity'', VNum (Fin (7 / 22)))]]"
    "predictor_validation_state example_helpers categorized_predictor_frame 0 = Inr 0"
    "predictor_validation_state example_helpers
       (predictor_frame (VNum (Fin 0)) (VNum (Fin 0))) 0 = Inr 1"
    "collect_rows (fst (categorize_twice categorized_predictor_frame
                          (CatCallable counting_rule) 0))
     = [[(''BinPositives'', VNum (Fin 3)), (''BinNegatives'', VNum (Fin 7)),
         (''PredictorCategory'', VNum (Fin 1))]]"
    "snd (categorize_twice categorized_predictor_frame (CatCallable counting_rule) 0) = 2"
    by (simp_all add: run_defs)
  from once rest show ?thesis by simp
qed

subsection \<open>Queries, and when a missing column is found\<close>

lemma collect_schema_fold_filter_error:
  "collect_schema d = Inl e \<Longrightarrow>
   collect_schema (fold (\<lambda>p acc. FilterRows acc p) ps d) = Inl e"
  by (induction ps arbitrary: d) simp_all


lemma collect_apply_query_error:
  "collect d = Inl e \<Longrightarrow> collect (apply_query d query) = Inl e"
  by (cases query)
    (auto simp: collect_def apply_query_def collect_schema_fold_filter_error split: sum.splits)


lemma missing_name_iff: "n \<notin> set (names s) \<longleftrightarrow> map_of s n = None"
  by (simp add: names_def map_of_eq_None_iff)

lemma success_rate_expr_missing:
  "''Positives'' \<notin> set (names s) \<or> ''ResponseCount'' \<notin> set (names s) \<Longrightarrow>
   dtype_of s success_rate_expr =
     Inl (ColumnNotFoundError
            (if ''Positives'' \<notin> set (names s) then ''Positives'' else ''ResponseCount''))"
  by (auto simp: success_rate_expr_def missing_name_iff split: option.splits)

lemma collect_success_rate_missing:
  assumes "collect_schema df2 = Inr sch2"
      and "''Positives'' \<notin> set (names sch2) \<or> ''ResponseCount'' \<notin> set (names sch2)"
  shows "collect (WithColumns df2 [(''SuccessRate'', success_rate_expr)]) =
           Inl (ColumnNotFoundError
             (if ''Positives'' \<notin> set (names sch2) then ''Positives'' else ''ResponseCount''))"
    and "collect (WithColumns (WithColumns df2 [(''SuccessRate'', success_rate_expr)]) es) =
           Inl (ColumnNotFoundError
             (if ''Positives'' \<notin> set (names sch2) then ''Positives'' else ''ResponseCount''))"
  using assms(1) success_rate_expr_missing [OF assms(2)]
  by (simp_all add: collect_def)

text \<open>
  Claim C6, as the code has it. Let the normalized schema resolve and key extraction
  succeed. A model input without a SnapshotTime column fails at construction time:
  \<open>schema["SnapshotTime"]\<close> raises KeyError. A model input with SnapshotTime whose
  dataset, after extraction, lacks Positives or ResponseCount is constructed without an
  error (whenever the predictor data validates), and the missing column is reported only
  when the model dataset is materialized.
\<close>

theorem missing_columns_surface:
  assumes "collect_schema (polars_capitalize h df) = Inr sch"
      and "(if ex \<and> ''Name'' \<in> set (names sch) then extract_keys h (polars_capitalize h df)
            else Inr (polars_capitalize h df)) = Inr df2"
      and "collect_schema df2 = Inr sch2"
  shows "(''SnapshotTime'' \<notin> set (names sch) \<longrightarrow>
            init h (Some df) predictor_df query ex s = Inl (KeyError ''SnapshotTime''))
         \<and> (''SnapshotTime'' \<in> set (names sch)
              \<and> (''Positives'' \<notin> set (names sch2) \<or> ''ResponseCount'' \<notin> set (names sch2))
              \<and> validate_predictor_data h predictor_df s = Inr (pd, s') \<longrightarrow>
            (\<exists>md keys.
               init h (Some df) predictor_df query ex s =
                 Inr (\<lparr>context_keys = keys, model_data = Some md, predictor_data = pd,
                       combined_data = combine_data h (Some md) pd\<rparr>, s')
               \<and> collect md =
                   Inl (ColumnNotFoundError
                     (if ''Positives'' \<notin> set (names sch2) then ''Positives''
                      else ''ResponseCount''))))"
proof (intro conjI impI)
  assume "''SnapshotTime'' \<notin> set (names sch)"
  then have "map_of sch ''SnapshotTime'' = None"
    by (simp add: missing_name_iff)
  with assms(1,2) show "init h (Some df) predictor_df query ex s = Inl (KeyError ''SnapshotTime'')"
    by (simp add: init_def validate_model_data_def Let_def)
next
  assume a: "''SnapshotTime'' \<in> set (names sch)
              \<and> (''Positives'' \<notin> set (names sch2) \<or> ''ResponseCount'' \<notin> set (names sch2))
              \<and> validate_predictor_data h predictor_df s = Inr (pd, s')"
  then obtain t where t: "map_of sch ''SnapshotTime'' = Some t"
    using missing_name_iff [of "''SnapshotTime''" sch] by auto
  define df3 where "df3 = WithColumns df2 [(''SuccessRate'', success_rate_expr)]"
  define df4 where "df4 = (if t \<noteq> Datetime
      then WithColumns df3 [(''SnapshotTime'', parse_pega_date_time_formats h)] else df3)"
  define keys where "keys = filter (\<lambda>k. k \<in> set (names sch))
      (if ''Treatment'' \<in> set (names sch) then initial_context_keys @ [''Treatment'']
       else initial_context_keys)"
  from assms(1,2) t
  have v: "validate_model_data h initial_context_keys (Some df) query ex =
             Inr (Some (apply_query df4 query), keys)"
    by (simp add: validate_model_data_def Let_def df4_def df3_def keys_def)
  from a have miss: "''Positives'' \<notin> set (names sch2) \<or> ''ResponseCount'' \<notin> set (names sch2)"
    by simp
  have "collect df4 = Inl (ColumnNotFoundError
           (if ''Positives'' \<notin> set (names sch2) then ''Positives'' else ''ResponseCount''))"
    unfolding df4_def df3_def
    using collect_success_rate_missing [OF assms(3) miss] by simp
  then have c: "collect (apply_query df4 query) = Inl (ColumnNotFoundError
           (if ''Positives'' \<notin> set (names sch2) then ''Positives'' else ''ResponseCount''))"
    by (rule collect_apply_query_error)
  from v a have "init h (Some df) predictor_df query ex s =
      Inr (\<lparr>context_keys = keys, model_data = Some (apply_query df4 query), predictor_data = pd,
            combined_data = combine_data h (Some (apply_query df4 query)) pd\<rparr>, s')"
    by (simp add: init_def)
  with c show "\<exists>md keys.
               init h (Some df) predictor_df query ex s =
                 Inr (\<lparr>context_keys = keys, model_data = Some md, predictor_data = pd,
                       combined_data = combine_data h (Some md) pd\<rparr>, s')
               \<and> collect md =
                   Inl (ColumnNotFoundError
                     (if ''Positives'' \<notin> set (names sch2) then ''Positives''
                      else ''ResponseCount''))"
    by blast
qed

theorem missing_columns_surface_witness:
  "constructed_presence example_helpers (Some model_frame_without_positives) None None True 0
     = Inr (True, False, False)
   \<and> validated_model_rows example_helpers model_frame_without_positives None True
     = Inl (ColumnNotFoundError ''Positives'')
   \<and> constructed_presence example_helpers (Some model_frame_without_snapshot_time)
       None None True 0
     = Inl (KeyError ''SnapshotTime'')"
proof -
  have sch: "collect_schema (polars_capitalize example_helpers model_frame_without_positives)
      = Inr [(''ResponseCount'', Float64), (''SnapshotTime'', Datetime)]"
    by (simp add: run_defs)
  have ext: "(if True \<and> ''Name'' \<in> set (names [(''ResponseCount'', Float64), (''SnapshotTime'', Datetime)])
        then extract_keys example_helpers
               (polars_capitalize example_helpers model_frame_without_positives)
        else Inr (polars_capitalize example_helpers model_frame_without_positives))
      = Inr (polars_capitalize example_helpers model_frame_without_positives)"
    by (simp add: run_defs)
  have p: "validate_predictor_data example_helpers None (0::nat) = Inr (None, 0)"
    by (simp add: run_defs)
  from missing_columns_surface [OF sch ext sch, of None None 0 None 0] p
  obtain md keys where
    i: "init example_helpers (Some model_frame_without_positives) None None True 0 =
          Inr (\<lparr>context_keys = keys, model_data = Some md, predictor_data = None,
                combined_data = combine_data example_helpers (Some md) None\<rparr>, 0)" and
    c: "collect md = Inl (ColumnNotFoundError ''Positives'')"
    by (auto simp: names_def)
  from i have "constructed_presence example_helpers (Some model_frame_without_positives)
      None None True 0 = Inr (True, False, False)"
    by (simp add: constructed_presence_def combine_data_def)
  moreover have "validated_model_rows example_helpers model_frame_without_positives None True
     = Inl (ColumnNotFoundError ''Positives'')"
    by (simp add: run_defs)
  moreover have "constructed_presence example_helpers (Some model_frame_without_snapshot_time)
       None None True 0 = Inl (KeyError ''SnapshotTime'')"
    by (simp add: run_defs)
  ultimately show ?thesis by simp
qed

text \<open>
  A missing SnapshotTime is not found at materialization: the construction itself fails.
\<close>

theorem missing_snapshot_time_counterexample:
  "init example_helpers (Some model_frame_without_snapshot_time) None None True 0
     = Inl (KeyError ''SnapshotTime'')"
  by (simp add: run_defs)





subsection \<open>Saving the datasets\<close>

text \<open>The digits of a number are unfolded by hand, one step at a time.\<close>

declare decimal.simps [simp del]

lemma fixed_width_zero: "fixed_width w 0 = replicate w (CHR ''0'')"
  by (induction w) (simp_all add: digit_def replicate_append_same)

lemma length_fixed_width: "length (fixed_width w n) = w"
  by (induction w arbitrary: n) simp_all

lemma zpad_snoc: "zpad (Suc w) (xs @ [d]) = zpad w xs @ [d]"
  by (simp add: zpad_def)

lemma zpad_decimal:
  "0 < w \<Longrightarrow> n < 10 ^ w \<Longrightarrow> zpad w (decimal n) = fixed_width w n"
proof (induction w arbitrary: n)
  case 0
  then show ?case by simp
next
  case (Suc w)
  show ?case
  proof (cases "n < 10")
    case True
    then have "decimal n = [digit n]"
      by (simp add: decimal.simps)
    with True show ?thesis
      by (simp add: zpad_def fixed_width_zero)
  next
    case False
    then have d: "decimal n = decimal (n div 10) @ [digit (n mod 10)]"
      by (simp add: decimal.simps)
    from False Suc.prems have w: "0 < w"
      by (cases w) simp_all
    from Suc.prems have "n div 10 < 10 ^ w"
      by (simp add: less_mult_imp_div_less mult.commute)
    with Suc.IH w have "zpad w (decimal (n div 10)) = fixed_width w (n div 10)"
      by simp
    with d show ?thesis
      by (simp add: zpad_snoc)
  qed
qed

lemma fixed_width_add:
  "fixed_width (a + b) n = fixed_width a (n div 10 ^ b) @ fixed_width b n"
proof (induction b arbitrary: n)
  case 0
  then show ?case by simp
next
  case (Suc b)
  have "fixed_width (a + Suc b) n = fixed_width (a + b) (n div 10) @ [digit (n mod 10)]"
    by simp
  also have "\<dots> = fixed_width a (n div 10 div 10 ^ b) @ fixed_width b (n div 10)
                   @ [digit (n mod 10)]"
    by (simp add: Suc.IH)
  also have "n div 10 div 10 ^ b = n div 10 ^ Suc b"
    by (simp add: div_mult2_eq)
  finally show ?case by simp
qed

lemma fixed_width_6: "fixed_width 6 n = fixed_width 3 (n div 1000) @ fixed_width 3 n"
  using fixed_width_add [of 3 3 n] by simp

lemma strftime_format:
  assumes "datetime_in_range t"
  shows "drop_last3 (strftime t) = timestamp_format t"
proof -
  from assms have
    "zpad 4 (decimal (year t)) = fixed_width 4 (year t)"
    "zpad 2 (decimal (month t)) = fixed_width 2 (month t)"
    "zpad 2 (decimal (day t)) = fixed_width 2 (day t)"
    "zpad 2 (decimal (hour t)) = fixed_width 2 (hour t)"
    "zpad 2 (decimal (minute t)) = fixed_width 2 (minute t)"
    "zpad 2 (decimal (second t)) = fixed_width 2 (second t)"
    "zpad 6 (decimal (microsecond t)) = fixed_width 6 (microsecond t)"
    by (simp_all add: datetime_in_range_def zpad_decimal)
  then have "strftime t = timestamp_format t @ fixed_width 3 (microsecond t)"
    by (simp add: strftime_def timestamp_format_def fixed_width_6)
  moreover have "length (fixed_width 3 (microsecond t)) = 3"
    by (rule length_fixed_width)
  ultimately show ?thesis
    by (simp add: drop_last3_def)
qed

lemma length_timestamp_format: "length (timestamp_format t) = 19"
  by (simp add: timestamp_format_def length_fixed_width)

lemma digit_is_digit: "d < 10 \<Longrightarrow> digit d \<in> set ''0123456789''"
  unfolding digit_def by (rule nth_mem) simp

lemma fixed_width_digits: "set (fixed_width w n) \<subseteq> set ''0123456789''"
proof (induction w arbitrary: n)
  case 0
  then show ?case by simp
next
  case (Suc w)
  have "digit (n mod 10) \<in> set ''0123456789''"
    by (rule digit_is_digit) simp
  with Suc.IH [of "n div 10"] show ?case
    by simp
qed

lemma timestamp_format_chars:
  "set (timestamp_format t) \<subseteq> set ''0123456789T.''"
proof -
  define D where "D = set ''0123456789T.''"
  have d: "set ''0123456789'' \<subseteq> D"
    unfolding D_def by (simp add: subset_iff)
  have fw: "set (fixed_width w n) \<subseteq> D" for w n
    by (rule subset_trans [OF fixed_width_digits d])
  have sep: "CHR ''T'' \<in> D" "CHR ''.'' \<in> D"
    unfolding D_def by simp_all
  have "set (timestamp_format t) \<subseteq> D"
    by (simp add: timestamp_format_def fw sep)
  then show ?thesis
    unfolding D_def .
qed

lemma timestamp_format_separators:
  "timestamp_format t ! 8 = CHR ''T''" "timestamp_format t ! 15 = CHR ''.''"
  by (simp_all add: timestamp_format_def nth_append length_fixed_width)

text \<open>
  Claim C8. A call of \<open>save_data\<close> reads the clock once; when the time read has its
  fields in range, the timestamp is that time in the format \<open>YYYYMMDDThhmmss.mmm\<close>:
  nineteen characters, digits apart from the \<open>T\<close> at position 8 and the point at
  position 15, the last three being the milliseconds. Both artifact names carry this one
  timestamp, \<open>cached_model_data_\<close> and \<open>cached_predictor_data_\<close> before it. A dataset
  that is present is written, the model dataset first, and its location returned; an
  absent dataset gives an absent location and no write: with both absent the world is
  the one left by the reading of the clock, and with one absent the only write is that
  of the other.
\<close>

theorem save_data_contract:
  assumes "now io w = (t, w0)"
      and "datetime_in_range t"
  shows "drop_last3 (strftime t) = timestamp_format t
         \<and> length (timestamp_format t) = 19
         \<and> set (timestamp_format t) \<subseteq> set ''0123456789T.''
         \<and> timestamp_format t ! 8 = CHR ''T'' \<and> timestamp_format t ! 15 = CHR ''.''
         \<and> (model_data dm = None \<and> predictor_data dm = None \<longrightarrow>
               save_data io dm path w = Inr ((None, None), w0))
         \<and> (\<forall>md. model_data dm = Some md \<and> predictor_data dm = None \<longrightarrow>
               save_data io dm path w =
                 (case cache_to_file io md path
                         (''cached_model_data_'' @ timestamp_format t) w0 of
                    Inl e \<Rightarrow> Inl e
                  | Inr (p, w1) \<Rightarrow> Inr ((Some p, None), w1)))
         \<and> (\<forall>pd. model_data dm = None \<and> predictor_data dm = Some pd \<longrightarrow>
               save_data io dm path w =
                 (case cache_to_file io pd path
                         (''cached_predictor_data_'' @ timestamp_format t) w0 of
                    Inl e \<Rightarrow> Inl e
                  | Inr (p, w1) \<Rightarrow> Inr ((None, Some p), w1)))
         \<and> (\<forall>md pd p1 w1 p2 w2.
               model_data dm = Some md \<and> predictor_data dm = Some pd
               \<and> cache_to_file io md path (''cached_model_data_'' @ timestamp_format t) w0
                   = Inr (p1, w1)
               \<and> cache_to_file io pd path (''cached_predictor_data_'' @ timestamp_format t) w1
                   = Inr (p2, w2)
               \<longrightarrow> save_data io dm path w = Inr ((Some p1, Some p2), w2))"
proof -
  note ts = strftime_format [OF assms(2)]
  have none: "save_data io dm path w = Inr ((None, None), w0)"
    if "model_data dm = None \<and> predictor_data dm = None"
    using that assms(1) by (simp add: save_data_def)
  have model_only: "save_data io dm path w =
                 (case cache_to_file io md path
                         (''cached_model_data_'' @ timestamp_format t) w0 of
                    Inl e \<Rightarrow> Inl e
                  | Inr (p, w1) \<Rightarrow> Inr ((Some p, None), w1))"
    if "model_data dm = Some md \<and> predictor_data dm = None" for md
  proof (cases "cache_to_file io md path (''cached_model_data_'' @ timestamp_format t) w0")
    case (Inl e)
    with that assms(1) ts show ?thesis
      by (simp add: save_data_def)
  next
    case (Inr r)
    obtain p w1 where "r = (p, w1)"
      by (cases r)
    with Inr that assms(1) ts show ?thesis
      by (simp add: save_data_def)
  qed
  have predictor_only: "save_data io dm path w =
                 (case cache_to_file io pd path
                         (''cached_predictor_data_'' @ timestamp_format t) w0 of
                    Inl e \<Rightarrow> Inl e
                  | Inr (p, w1) \<Rightarrow> Inr ((None, Some p), w1))"
    if "model_data dm = None \<and> predictor_data dm = Some pd" for pd
  proof (cases "cache_to_file io pd path (''cached_predictor_data_'' @ timestamp_format t) w0")
    case (Inl e)
    with that assms(1) ts show ?thesis
      by (simp add: save_data_def)
  next
    case (Inr r)
    obtain p w1 where "r = (p, w1)"
      by (cases r)
    with Inr that assms(1) ts show ?thesis
      by (simp add: save_data_def)
  qed
  have both: "save_data io dm path w = Inr ((Some p1, Some p2), w2)"
    if "model_data dm = Some md \<and> predictor_data dm = Some pd
        \<and> cache_to_file io md path (''cached_model_data_'' @ timestamp_format t) w0
            = Inr (p1, w1)
        \<and> cache_to_file io pd path (''cached_predictor_data_'' @ timestamp_format t) w1
            = Inr (p2, w2)"
    for md pd p1 w1 p2 w2
    using that assms(1) ts by (simp add: save_data_def)
  show ?thesis
  proof (intro conjI allI impI)
    show "drop_last3 (strftime t) = timestamp_format t"
      by (rule ts)
    show "length (timestamp_format t) = 19"
      by (rule length_timestamp_format)
    show "set (timestamp_format t) \<subseteq> set ''0123456789T.''"
      by (rule timestamp_format_chars)
    show "timestamp_format t ! 8 = CHR ''T''"
      by (rule timestamp_format_separators)
    show "timestamp_format t ! 15 = CHR ''.''"
      by (rule timestamp_format_separators)
  qed (fact none model_only predictor_only both)+
qed

theorem save_data_contract_witness:
  "save_data example_io
     (example_datamart (Some keyed_model_frame) (Some categorized_predictor_frame))
     ''cache'' (0, [])
     = Inr ((Some ''cache/cached_model_data_20240307T090500.001'',
             Some ''cache/cached_predictor_data_20240307T090500.001''),
            1, [''cached_model_data_20240307T090500.001'',
                ''cached_predictor_data_20240307T090500.001''])
   \<and> save_data example_io (example_datamart None (Some categorized_predictor_frame))
       ''cache'' (0, [])
     = Inr ((None, Some ''cache/cached_predictor_data_20240307T090500.001''),
            1, [''cached_predictor_data_20240307T090500.001''])
   \<and> save_data example_io (example_datamart None None) ''cache'' (0, [])
     = Inr ((None, None), 1, [])"
proof -
  define t where "t = \<lparr>year = 2024, month = 3, day = 7, hour = 9, minute = 5, second = 0,
                       microsecond = 1234\<rparr>"
  have n: "now example_io (0, []) = (t, (1, []))"
    by (simp add: example_io_def t_def)
  have rng: "datetime_in_range t"
    by (simp add: datetime_in_range_def t_def)
  have stamp: "timestamp_format t = ''20240307T090500.001''"
    unfolding t_def by code_simp
  note contract = save_data_contract [OF n rng, where path = "''cache''"]
  have 3: "save_data example_io (example_datamart None None) ''cache'' (0, [])
     = Inr ((None, None), 1, [])"
    using contract [of "example_datamart None None"]
    by (simp add: example_datamart_def)
  have 2: "save_data example_io (example_datamart None (Some categorized_predictor_frame))
       ''cache'' (0, [])
     = Inr ((None, Some ''cache/cached_predictor_data_20240307T090500.001''),
            1, [''cached_predictor_data_20240307T090500.001''])"
    using contract [of "example_datamart None (Some categorized_predictor_frame)"]
    by (simp add: example_datamart_def example_io_def stamp)
  have 1: "save_data example_io
     (example_datamart (Some keyed_model_frame) (Some categorized_predictor_frame))
     ''cache'' (0, [])
     = Inr ((Some ''cache/cached_model_data_20240307T090500.001'',
             Some ''cache/cached_predictor_data_20240307T090500.001''),
            1, [''cached_model_data_20240307T090500.001'',
                ''cached_predictor_data_20240307T090500.001''])"
    using contract [of "example_datamart (Some keyed_model_frame)
                          (Some categorized_predictor_frame)"]
    by (simp add: example_datamart_def example_io_def stamp)
  from 1 2 3 show ?thesis by simp
qed

end
